(* ===== verification/Py_Str.thy ===== *)
theory Py_Str
  imports Prelude
begin

text \<open>
  The Python string built-ins that \<^verbatim>\<open>src/receiptscanner/local_receipt_parser_dual_ai.py\<close>
  calls: \<^verbatim>\<open>str.lower\<close> and \<^verbatim>\<open>str.split('.')\<close> with \<^verbatim>\<open>[-1]\<close> (the extension test,
  line 32), \<^verbatim>\<open>str.strip()\<close> (line 44) and \<^verbatim>\<open>os.path.join\<close> (line 91).
  A Python \<^verbatim>\<open>str\<close> is a sequence of code points; the model's \<open>string\<close> is a list of
  8-bit \<open>char\<close>s, so it covers the code points 0 to 255 (Latin-1), and each built-in
  is written with CPython's rules for exactly that range.
\<close>

subsection \<open>\<^verbatim>\<open>str.lower\<close>\<close>

text \<open>
  In Latin-1, the letters A-Z and the upper-case letters 0xC0-0xDE except the multiplication
  sign 0xD7 have a one-character lower case 32 code points higher; every other code point
  below 256 is its own lower case.
\<close>

definition py_lower_char :: "char \<Rightarrow> char" where
  "py_lower_char c =
     (let n = (of_char c :: nat)
      in if (65 \<le> n \<and> n \<le> 90) \<or> (192 \<le> n \<and> n \<le> 222 \<and> n \<noteq> 215) then char_of (n + 32) else c)"

definition py_lower :: "string \<Rightarrow> string" where
  "py_lower s = map py_lower_char s"

subsection \<open>\<^verbatim>\<open>str.split(sep)\<close> with a one-character separator\<close>

fun py_split :: "char \<Rightarrow> string \<Rightarrow> string list" where
  "py_split d [] = [[]]"
| "py_split d (c # cs) =
     (if c = d then [] # py_split d cs
      else (case py_split d cs of [] \<Rightarrow> [[c]] | w # ws \<Rightarrow> (c # w) # ws))"

subsection \<open>\<^verbatim>\<open>str.strip()\<close>\<close>

text \<open>
  \<^verbatim>\<open>str.isspace\<close> below code point 256: the controls 0x09-0x0D and 0x1C-0x1F, the space,
  NEL 0x85 and the no-break space 0xA0.
\<close>

definition py_isspace :: "char \<Rightarrow> bool" where
  "py_isspace c =
     (let n = (of_char c :: nat)
      in (9 \<le> n \<and> n \<le> 13) \<or> (28 \<le> n \<and> n \<le> 32) \<or> n = 133 \<or> n = 160)"

definition py_strip :: "string \<Rightarrow> string" where
  "py_strip s = rev (dropWhile py_isspace (rev (dropWhile py_isspace s)))"

subsection \<open>\<^verbatim>\<open>os.path.join\<close> (posixpath)\<close>

text \<open>
  \<^verbatim>\<open>posixpath.join(a, b)\<close>: an absolute \<open>b\<close> replaces \<open>a\<close>; otherwise a slash is inserted
  unless \<open>a\<close> is empty or already ends in one.
\<close>

definition os_path_join :: "string \<Rightarrow> string \<Rightarrow> string" where
  "os_path_join a b =
     (if take 1 b = ''/'' then b
      else if a = [] \<or> last a = CHR ''/'' then a @ b
      else a @ ''/'' @ b)"

declare py_lower_def [model_defs] py_strip_def [model_defs] os_path_join_def [model_defs]

subsection \<open>Splitting\<close>

lemma py_split_not_Nil [simp]: "py_split d s \<noteq> []"
  by (induction s) (auto split: list.splits)

lemma py_split_no_sep: "w \<in> set (py_split d s) \<Longrightarrow> d \<notin> set w"
proof (induction s arbitrary: w)
  case Nil
  then show ?case by simp
next
  case (Cons c cs)
  then show ?case
    by (cases "py_split d cs") (auto split: if_splits)
qed

lemma py_split_no_sep_eq: "d \<notin> set s \<Longrightarrow> py_split d s = [s]"
  by (induction s) auto

lemma py_split_append_sep: "py_split d (xs @ d # ys) = py_split d xs @ py_split d ys"
proof (induction xs)
  case Nil
  then show ?case by simp
next
  case (Cons x xs)
  then show ?case by (cases "py_split d xs") auto
qed

text \<open>\<^verbatim>\<open>s.split(d)[-1]\<close> is the part after the last separator.\<close>

lemma last_py_split: "last (py_split d s) = rev (takeWhile (\<lambda>c. c \<noteq> d) (rev s))"
proof (cases "d \<in> set s")
  case True
  then obtain xs ys where s: "s = xs @ d # ys" and ys: "d \<notin> set ys"
    using split_list_last by metis
  from ys have "takeWhile (\<lambda>c. c \<noteq> d) (rev ys @ d # rev xs) = rev ys"
    by (subst takeWhile_append2) auto
  with s ys show ?thesis by (simp add: py_split_append_sep py_split_no_sep_eq)
next
  case False
  then have "takeWhile (\<lambda>c. c \<noteq> d) (rev s) = rev s"
    by (subst takeWhile_eq_all_conv) auto
  with False show ?thesis by (simp add: py_split_no_sep_eq del: takeWhile_eq_all_conv)
qed

subsection \<open>Stripping\<close>

lemma py_strip_Nil_iff: "py_strip s = [] \<longleftrightarrow> (\<forall>c \<in> set s. py_isspace c)"
  by (simp add: py_strip_def dropWhile_all_iff)

lemma py_strip_append_spaces:
  "\<forall>c \<in> set q. py_isspace c \<Longrightarrow> py_strip (s @ q) = py_strip s"
proof (cases "\<forall>c \<in> set s. py_isspace c")
  case True
  assume q: "\<forall>c \<in> set q. py_isspace c"
  with True have "py_strip (s @ q) = []" and "py_strip s = []"
    by (auto simp: py_strip_Nil_iff)
  then show ?thesis by simp
next
  case False
  assume q: "\<forall>c \<in> set q. py_isspace c"
  from False obtain x where "x \<in> set s" and "\<not> py_isspace x" by blast
  then have "dropWhile py_isspace (s @ q) = dropWhile py_isspace s @ q"
    by (rule dropWhile_append1)
  moreover from q have "dropWhile py_isspace (rev q @ xs) = dropWhile py_isspace xs" for xs
    by (simp add: dropWhile_append_all)
  ultimately show ?thesis by (simp add: py_strip_def)
qed

text \<open>The result of \<^verbatim>\<open>strip()\<close> starts and ends with a non-space character.\<close>

lemma py_strip_ends:
  assumes "py_strip s \<noteq> []"
  shows "\<not> py_isspace (hd (py_strip s)) \<and> \<not> py_isspace (last (py_strip s))"
proof -
  let ?u = "dropWhile py_isspace s"
  let ?x = "dropWhile py_isspace (rev ?u)"
  from assms have x: "?x \<noteq> []" by (simp add: py_strip_def)
  have u: "?u \<noteq> []"
  proof
    assume "?u = []"
    then have "?x = []" by (simp add: dropWhile_all_iff)
    with x show False by contradiction
  qed
  have "hd (py_strip s) = last ?x" using x by (simp add: py_strip_def hd_rev)
  also have "\<dots> = hd ?u" using x u by (simp add: last_dropWhile last_rev)
  finally have hd: "\<not> py_isspace (hd (py_strip s))" using u by (simp add: hd_dropWhile)
  have "last (py_strip s) = hd ?x" using x by (simp add: py_strip_def last_rev)
  then have "\<not> py_isspace (last (py_strip s))" using x by (simp add: hd_dropWhile)
  with hd show ?thesis by simp
qed

lemma py_strip_id:
  assumes "t = [] \<or> (\<not> py_isspace (hd t) \<and> \<not> py_isspace (last t))"
  shows "py_strip t = t"
proof (cases t rule: rev_cases)
  case Nil
  then show ?thesis by (simp add: py_strip_def)
next
  case (snoc ys y)
  then have ne: "t \<noteq> []" by simp
  with assms have hd: "\<not> py_isspace (hd t)" and lst: "\<not> py_isspace (last t)" by auto
  from ne hd have "dropWhile py_isspace t = t" by (cases t) auto
  moreover from snoc lst have "dropWhile py_isspace (rev t) = rev t" by simp
  ultimately show ?thesis by (simp add: py_strip_def)
qed

lemma py_strip_idem [simp]: "py_strip (py_strip s) = py_strip s"
  using py_strip_ends [of s] by (intro py_strip_id) auto

lemma py_isspace_LF [simp]: "py_isspace LF"
  by (simp add: py_isspace_def)

end
