(* ===== verification/Py_Value.thy ===== *)
theory Py_Value
  imports Py_Str
begin

text \<open>
  Python values as the program meets them: the objects \<^verbatim>\<open>json.loads\<close> returns (lines 64
  and 66 of \<^verbatim>\<open>src/receiptscanner/local_receipt_parser_dual_ai.py\<close>), the exceptions the
  program raises or catches, and the built-in operations it applies to them: subscripting
  (\<^verbatim>\<open>result['choices'][0]['message']['content']\<close>, line 65), item assignment
  (\<^verbatim>\<open>result["File"] = filename\<close>, line 103), \<^verbatim>\<open>dict.get\<close> (lines 77-83) and the
  conversion to text that \<^verbatim>\<open>csv.writer\<close> applies to every field (\<^verbatim>\<open>str\<close>, \<^verbatim>\<open>repr\<close>).
  A dict is an association list in insertion order with distinct keys, as CPython's
  dict is; a float is carried as the text its \<^verbatim>\<open>repr\<close> prints, the only use the program
  makes of it.
\<close>

datatype pyval =
  PNone
| PBool bool
| PInt int
| PFloat string
| PStr string
| PList "pyval list"
| PDict "(string \<times> pyval) list"

text \<open>
  \<open>LibError\<close> is an exception raised inside a library the program calls (the OCR engine,
  the PDF rasteriser, PIL, the HTTP transport), carried with its message.
\<close>

datatype py_exc =
  KeyError pyval
| IndexError
| TypeError
| ValueError string
| JSONDecodeError
| FileExistsError string
| FileNotFoundError string
| NotADirectoryError string
| LibError string

subsection \<open>Dicts\<close>

text \<open>\<^verbatim>\<open>d[k] = v\<close>: an existing key keeps its position, a new key goes last.\<close>

fun dict_set :: "string \<Rightarrow> 'v \<Rightarrow> (string \<times> 'v) list \<Rightarrow> (string \<times> 'v) list" where
  "dict_set k v [] = [(k, v)]"
| "dict_set k v ((k', v') # ps) = (if k = k' then (k, v) # ps else (k', v') # dict_set k v ps)"

definition py_dict_get :: "(string \<times> pyval) list \<Rightarrow> string \<Rightarrow> pyval \<Rightarrow> pyval" where
  "py_dict_get ps k d = (case map_of ps k of Some v \<Rightarrow> v | None \<Rightarrow> d)"

subsection \<open>Subscripting and item assignment\<close>

definition py_index :: "'a list \<Rightarrow> int \<Rightarrow> py_exc + 'a" where
  "py_index xs i =
     (let k = (if i < 0 then i + int (length xs) else i)
      in if k < 0 \<or> int (length xs) \<le> k then Inl IndexError else Inr (xs ! nat k))"

text \<open>
  \<^verbatim>\<open>obj[key]\<close>. A JSON object has only string keys, so any other hashable key is a
  KeyError and a list or dict key is unhashable (TypeError); lists and strings take
  integer indices (a bool is an int in Python); None, bools, numbers are not subscriptable.
\<close>

fun py_getitem :: "pyval \<Rightarrow> pyval \<Rightarrow> py_exc + pyval" where
  "py_getitem (PDict ps) k =
     (case k of
        PStr s \<Rightarrow> (case map_of ps s of Some v \<Rightarrow> Inr v | None \<Rightarrow> Inl (KeyError k))
      | PList _ \<Rightarrow> Inl TypeError
      | PDict _ \<Rightarrow> Inl TypeError
      | _ \<Rightarrow> Inl (KeyError k))"
| "py_getitem (PList xs) k =
     (case k of
        PInt i \<Rightarrow> py_index xs i
      | PBool b \<Rightarrow> py_index xs (if b then 1 else 0)
      | _ \<Rightarrow> Inl TypeError)"
| "py_getitem (PStr s) k =
     (case k of
        PInt i \<Rightarrow> bind_exc (py_index s i) (\<lambda>c. Inr (PStr [c]))
      | PBool b \<Rightarrow> bind_exc (py_index s (if b then 1 else 0)) (\<lambda>c. Inr (PStr [c]))
      | _ \<Rightarrow> Inl TypeError)"
| "py_getitem _ k = Inl TypeError"

text \<open>
  \<^verbatim>\<open>obj[key] = v\<close> with a string key, returning the updated dict: only a dict accepts it
  (a list wants an integer index, the other values do not support item assignment).
\<close>

fun py_setitem_str :: "pyval \<Rightarrow> string \<Rightarrow> pyval \<Rightarrow> py_exc + (string \<times> pyval) list" where
  "py_setitem_str (PDict ps) k v = Inr (dict_set k v ps)"
| "py_setitem_str _ k v = Inl TypeError"

text \<open>\<^verbatim>\<open>json.loads(x)\<close> on a value: only a string is parsed, by the library's parser.\<close>

definition py_json_loads :: "(string \<Rightarrow> py_exc + pyval) \<Rightarrow> pyval \<Rightarrow> py_exc + pyval" where
  "py_json_loads loads v = (case v of PStr s \<Rightarrow> loads s | _ \<Rightarrow> Inl TypeError)"

subsection \<open>Text of a value: \<^verbatim>\<open>str\<close> and \<^verbatim>\<open>repr\<close>\<close>

fun nat_digits :: "nat \<Rightarrow> string" where
  "nat_digits n = (if n < 10 then [char_of (48 + n)] else nat_digits (n div 10) @ [char_of (48 + n mod 10)])"

definition py_str_int :: "int \<Rightarrow> string" where
  "py_str_int i = (if i < 0 then CHR ''-'' # nat_digits (nat (- i)) else nat_digits (nat i))"

abbreviation BSL :: char where "BSL \<equiv> CHR 0x5C"
abbreviation SQ :: char where "SQ \<equiv> CHR 0x27"
abbreviation DQ :: char where "DQ \<equiv> CHR 0x22"

definition hex_digit :: "nat \<Rightarrow> char" where
  "hex_digit n = (if n < 10 then char_of (48 + n) else char_of (87 + n))"

text \<open>
  One character of \<^verbatim>\<open>repr(str)\<close> (CPython's \<^verbatim>\<open>unicode_repr\<close>) under quote \<open>q\<close>:
  the quote and the backslash are escaped, tab, newline and return get their short escapes,
  other controls, DEL and the non-printable Latin-1 code points 0x80-0xA0 and 0xAD are
  written \<^verbatim>\<open>\xhh\<close>.
\<close>

definition repr_char :: "char \<Rightarrow> char \<Rightarrow> string" where
  "repr_char q c =
     (let n = (of_char c :: nat)
      in if c = q \<or> c = BSL then [BSL, c]
         else if n = 9 then [BSL, CHR ''t'']
         else if n = 10 then [BSL, CHR ''n'']
         else if n = 13 then [BSL, CHR ''r'']
         else if n < 32 \<or> n = 127 \<or> (128 \<le> n \<and> n \<le> 160) \<or> n = 173
           then [BSL, CHR ''x'', hex_digit (n div 16), hex_digit (n mod 16)]
         else [c])"

definition py_repr_str :: "string \<Rightarrow> string" where
  "py_repr_str s =
     (let q = (if SQ \<in> set s \<and> DQ \<notin> set s then DQ else SQ)
      in q # concat (map (repr_char q) s) @ [q])"

fun py_repr :: "pyval \<Rightarrow> string" where
  "py_repr PNone = ''None''"
| "py_repr (PBool b) = (if b then ''True'' else ''False'')"
| "py_repr (PInt i) = py_str_int i"
| "py_repr (PFloat r) = r"
| "py_repr (PStr s) = py_repr_str s"
| "py_repr (PList xs) = CHR ''['' # py_join '', '' (map py_repr xs) @ '']''"
| "py_repr (PDict ps) =
     CHR ''{'' # py_join '', '' (map (\<lambda>(k, v). py_repr_str k @ '': '' @ py_repr v) ps) @ ''}''"

text \<open>
  The text \<^verbatim>\<open>csv.writer\<close> writes for a field: None is the empty field, a string is
  itself, a float its \<^verbatim>\<open>repr\<close>, anything else its \<^verbatim>\<open>str\<close>, which for the remaining
  JSON values is their \<^verbatim>\<open>repr\<close>.
\<close>

fun csv_str :: "pyval \<Rightarrow> string" where
  "csv_str PNone = []"
| "csv_str (PStr s) = s"
| "csv_str v = py_repr v"

declare py_dict_get_def [model_defs] py_index_def [model_defs] py_json_loads_def [model_defs]
  py_str_int_def [model_defs] py_repr_str_def [model_defs] repr_char_def [model_defs]
  hex_digit_def [model_defs]

subsection \<open>Dict update and lookup\<close>

lemma map_of_dict_set: "map_of (dict_set k v ps) = (map_of ps)(k \<mapsto> v)"
  by (induction ps) (auto simp: fun_eq_iff)


end
