(* ===== verification/World.thy ===== *)
theory World
  imports Py_Value
begin

text \<open>
  The part of the outside world the program reads and changes, threaded through every
  operation as an explicit state (the world-passing style of an IO model):
  \<^item> \<open>console\<close>: what the program prints, one event per \<^verbatim>\<open>print\<close> call, in order;
  \<^item> \<open>sent\<close>: the HTTP requests it has sent, in order (one per \<^verbatim>\<open>httpx.post\<close>);
  \<^item> \<open>files\<close>: the contents of the files it writes, by path (the CSV output);
  \<^item> \<open>folder\<close>: the input directory \<^verbatim>\<open>./assets\<close>: missing, a non-directory, or a
    directory with the entries \<^verbatim>\<open>os.listdir\<close> returns, in that order, each with the
    answer \<^verbatim>\<open>os.path.isfile\<close> gives for it;
  \<^item> \<open>io\<close>: every externally visible effect in the order it happens: a printed line, a
    request posted, a chunk appended to a file (one per \<^verbatim>\<open>writerow\<close>).
  Each effect is made by one operation here (\<open>emit\<close>, \<open>post\<close>, \<open>append_file\<close>),
  which updates its own field and the trace together.
\<close>

datatype log_event =
  Processing string
| SkippedNoText string
| OcrError string py_exc
| ApiStatusError int string
| ApiError py_exc

record http_request =
  req_url :: string
  req_headers :: "(string \<times> string) list"
  req_json :: pyval

datatype io_event =
  Printed log_event
| Posted http_request
| Appended string string

record http_response =
  status_code :: int
  resp_text :: string

record dir_entry =
  entry_name :: string
  entry_is_file :: bool

datatype folder_state = Missing | NotADir | Dir "dir_entry list"

record world =
  console :: "log_event list"
  sent :: "http_request list"
  files :: "string \<Rightarrow> string option"
  folder :: folder_state
  io :: "io_event list"

definition emit :: "log_event \<Rightarrow> world \<Rightarrow> world" where
  "emit ev w = w\<lparr>console := console w @ [ev], io := io w @ [Printed ev]\<rparr>"

definition post :: "http_request \<Rightarrow> world \<Rightarrow> world" where
  "post req w = w\<lparr>sent := sent w @ [req], io := io w @ [Posted req]\<rparr>"

text \<open>The content of a file, empty when it does not exist (\<^verbatim>\<open>open(path, "a")\<close> creates it).\<close>

definition file_content :: "world \<Rightarrow> string \<Rightarrow> string" where
  "file_content w path = (case files w path of None \<Rightarrow> [] | Some c \<Rightarrow> c)"

definition append_file :: "string \<Rightarrow> string \<Rightarrow> world \<Rightarrow> world" where
  "append_file path chunk w =
     w\<lparr>files := (files w)(path \<mapsto> file_content w path @ chunk), io := io w @ [Appended path chunk]\<rparr>"

text \<open>
  Kinds of trace events: a note is a printed line other than a \<^verbatim>\<open>Processing:\<close> line
  (an error or a skip notice); \<open>is_append_to p\<close> recognises a chunk appended to \<open>p\<close>.
\<close>

fun is_note :: "io_event \<Rightarrow> bool" where
  "is_note (Printed (Processing f)) = False"
| "is_note (Printed ev) = True"
| "is_note _ = False"

fun is_append_to :: "string \<Rightarrow> io_event \<Rightarrow> bool" where
  "is_append_to p (Appended q c) = (q = p)"
| "is_append_to p _ = False"

text \<open>A world before the program runs: nothing printed or sent, no output file.\<close>

definition start_world :: "folder_state \<Rightarrow> world" where
  "start_world f = \<lparr>console = [], sent = [], files = Map.empty, folder = f, io = []\<rparr>"

declare emit_def [model_defs] start_world_def [model_defs] post_def [model_defs]
  append_file_def [model_defs] file_content_def [model_defs]

lemma emit_frame [simp]:
  "sent (emit ev w) = sent w" "files (emit ev w) = files w" "folder (emit ev w) = folder w"
  "console (emit ev w) = console w @ [ev]" "io (emit ev w) = io w @ [Printed ev]"
  by (simp_all add: emit_def)

lemma post_frame [simp]:
  "sent (post req w) = sent w @ [req]" "files (post req w) = files w" "folder (post req w) = folder w"
  "console (post req w) = console w" "io (post req w) = io w @ [Posted req]"
  by (simp_all add: post_def)

lemma append_file_frame [simp]:
  "sent (append_file p c w) = sent w" "folder (append_file p c w) = folder w"
  "console (append_file p c w) = console w" "io (append_file p c w) = io w @ [Appended p c]"
  "file_content (append_file p c w) p = file_content w p @ c"
  "q \<noteq> p \<Longrightarrow> file_content (append_file p c w) q = file_content w q"
  by (simp_all add: append_file_def file_content_def)

lemma file_content_emit_post [simp]:
  "file_content (emit ev w) p = file_content w p" "file_content (post req w) p = file_content w p"
  by (simp_all add: file_content_def)

end
