(* ===== verification/Extractor.thy ===== *)
theory Extractor
  imports World
begin

text \<open>
  The text extractor, \<^verbatim>\<open>extract_text_from_file\<close> (lines 31-44 of
  \<^verbatim>\<open>src/receiptscanner/local_receipt_parser_dual_ai.py\<close>). The libraries it calls are
  parameters, a record \<open>ocr_lib\<close> of three functions that either return or raise:
  \<^verbatim>\<open>pdf2image.convert_from_path\<close> (one image per page), \<^verbatim>\<open>PIL.Image.open\<close> and
  \<^verbatim>\<open>pytesseract.image_to_string\<close>. Every theorem holds for every such library.
\<close>

record 'img ocr_lib =
  convert_from_path :: "string \<Rightarrow> py_exc + 'img list"
  image_open :: "string \<Rightarrow> py_exc + 'img"
  image_to_string :: "'img \<Rightarrow> py_exc + string"

text \<open>\<^verbatim>\<open>file_path.lower().split('.')[-1]\<close>; \<open>py_split\<close> never returns an empty list.\<close>

definition file_ext :: "string \<Rightarrow> string" where
  "file_ext p = last (py_split (CHR ''.'') (py_lower p))"

text \<open>
  The loop of the PDF branch, \<^verbatim>\<open>for img in images: text += image_to_string(img) + '\n'\<close>:
  it either completes with the accumulated text or raises at some page, and then the text
  accumulated so far is what the \<^verbatim>\<open>except\<close> clause finds in \<^verbatim>\<open>text\<close>.
\<close>

fun ocr_pages :: "('img \<Rightarrow> py_exc + string) \<Rightarrow> 'img list \<Rightarrow> string \<Rightarrow> (py_exc \<times> string) + string" where
  "ocr_pages ocr [] text = Inr text"
| "ocr_pages ocr (img # imgs) text =
     (case ocr img of
        Inl e \<Rightarrow> Inl (e, text)
      | Inr s \<Rightarrow> ocr_pages ocr imgs (text @ s @ [LF]))"

text \<open>
  The \<^verbatim>\<open>try\<close> block: the raised exception with the value of \<^verbatim>\<open>text\<close> at that moment, or
  the final \<^verbatim>\<open>text\<close>. In the image branch \<^verbatim>\<open>text\<close> is assigned only when OCR returns.
\<close>

definition extract_try :: "'img ocr_lib \<Rightarrow> string \<Rightarrow> (py_exc \<times> string) + string" where
  "extract_try lib p =
     (if file_ext p = ''pdf'' then
        (case convert_from_path lib p of
           Inl e \<Rightarrow> Inl (e, [])
         | Inr images \<Rightarrow> ocr_pages (image_to_string lib) images [])
      else
        (case image_open lib p of
           Inl e \<Rightarrow> Inl (e, [])
         | Inr img \<Rightarrow>
             (case image_to_string lib img of
                Inl e \<Rightarrow> Inl (e, [])
              | Inr t \<Rightarrow> Inr t)))"

text \<open>The \<^verbatim>\<open>except\<close> clause prints the error; both paths return \<^verbatim>\<open>text.strip()\<close>.\<close>

definition extract_text_from_file :: "'img ocr_lib \<Rightarrow> string \<Rightarrow> world \<Rightarrow> string \<times> world" where
  "extract_text_from_file lib p w =
     (case extract_try lib p of
        Inl (e, t) \<Rightarrow> (py_strip t, emit (OcrError p e) w)
      | Inr t \<Rightarrow> (py_strip t, w))"

declare file_ext_def [model_defs] extract_try_def [model_defs]
  extract_text_from_file_def [model_defs]

subsection \<open>The page loop\<close>

text \<open>Where every page is read, the loop appends each page's text and a newline.\<close>

lemma ocr_pages_ok:
  "list_all2 (\<lambda>img t. ocr img = Inr t) imgs ts \<Longrightarrow>
   ocr_pages ocr imgs acc = Inr (acc @ concat (map (\<lambda>t. t @ [LF]) ts))"
proof (induction imgs arbitrary: ts acc)
  case Nil
  then show ?case by simp
next
  case (Cons img imgs)
  then obtain t ts' where "ts = t # ts'" "ocr img = Inr t" "list_all2 (\<lambda>img t. ocr img = Inr t) imgs ts'"
    by (cases ts) auto
  with Cons.IH show ?case by simp
qed

lemma ocr_pages_fail:
  "list_all2 (\<lambda>img t. ocr img = Inr t) imgs ts \<Longrightarrow> ocr bad = Inl e \<Longrightarrow>
   ocr_pages ocr (imgs @ bad # rest) acc = Inl (e, acc @ concat (map (\<lambda>t. t @ [LF]) ts))"
proof (induction imgs arbitrary: ts acc)
  case Nil
  then show ?case by simp
next
  case (Cons img imgs)
  then obtain t ts' where "ts = t # ts'" "ocr img = Inr t" "list_all2 (\<lambda>img t. ocr img = Inr t) imgs ts'"
    by (cases ts) auto
  with Cons.IH Cons.prems(2) show ?case by simp
qed

lemma ocr_pages_cases:
  "ocr_pages ocr imgs acc = Inr t \<Longrightarrow> \<exists>s. t = acc @ s"
  "ocr_pages ocr imgs acc = Inl (e, t) \<Longrightarrow> \<exists>s. t = acc @ s"
  by (induction ocr imgs acc rule: ocr_pages.induct) (force split: sum.splits)+

subsection \<open>The extension test\<close>

lemma py_lower_char_dot [simp]: "py_lower_char c = CHR ''.'' \<longleftrightarrow> c = CHR ''.''"
proof -
  define n where "n = (of_char c :: nat)"
  have moved: "char_of (n + 32) \<noteq> CHR ''.''" if "65 \<le> n" "n \<le> 222"
  proof
    assume "char_of (n + 32) = CHR ''.''"
    then have "(of_char (char_of (n + 32)) :: nat) = of_char (CHR ''.'')" by simp
    then have "(n + 32) mod 256 = 46" by (simp add: of_char_of)
    moreover from that have "(n + 32) mod 256 = n + 32" by simp
    ultimately show False using that by simp
  qed
  moreover have "c = CHR ''.'' \<Longrightarrow> n = 46" by (simp add: n_def)
  ultimately show ?thesis by (auto simp: py_lower_char_def Let_def n_def [symmetric])
qed

text \<open>
  C24. The extension tested at line 32, \<^verbatim>\<open>file_path.lower().split('.')[-1]\<close>, is the
  lower-cased text after the last dot of the path (the whole lower-cased path if it has no dot).
\<close>

lemma file_ext_after_last_dot:
  "file_ext p = py_lower (rev (takeWhile (\<lambda>c. c \<noteq> CHR ''.'') (rev p)))"
proof -
  have "(\<lambda>c. c \<noteq> CHR ''.'') \<circ> py_lower_char = (\<lambda>c. c \<noteq> CHR ''.'')"
    by (auto simp: fun_eq_iff)
  then show ?thesis
    by (simp add: file_ext_def last_py_split py_lower_def rev_map takeWhile_map)
qed

subsection \<open>Behaviour of \<^verbatim>\<open>extract_text_from_file\<close>\<close>

text \<open>The text does not depend on the world; the call writes no file and sends nothing.\<close>

lemma extract_text_world: "fst (extract_text_from_file lib p w) = fst (extract_text_from_file lib p w')"
  by (simp add: extract_text_from_file_def split: sum.splits)

lemma extract_text_frame:
  "files (snd (extract_text_from_file lib p w)) = files w \<and> sent (snd (extract_text_from_file lib p w)) = sent w \<and>
   folder (snd (extract_text_from_file lib p w)) = folder w"
  by (simp add: extract_text_from_file_def split: sum.splits)


lemma extract_io:
  "\<exists>ns. io (snd (extract_text_from_file lib p w)) = io w @ ns \<and> list_all is_note ns"
proof (cases "extract_try lib p")
  case (Inl et)
  then show ?thesis
    by (cases et) (auto simp: extract_text_from_file_def intro!: exI [of _ "[Printed (OcrError p (fst et))]"])
qed (auto simp: extract_text_from_file_def)

lemma strip_pages_py_join:
  "py_strip (concat (map (\<lambda>t. t @ [LF]) ts)) = py_strip (py_join [LF] ts)"
  by (simp add: concat_map_snoc_py_join py_strip_append_spaces)

text \<open>
  C13. A PDF whose pages are all read yields the page texts joined by newlines, stripped:
  the newline the code appends after every page is the separator the spec describes,
  because \<^verbatim>\<open>strip()\<close> removes the last one. Nothing is printed.
\<close>

theorem extract_pdf_pages:
  assumes "file_ext p = ''pdf''"
    and "convert_from_path lib p = Inr imgs"
    and "list_all2 (\<lambda>img t. image_to_string lib img = Inr t) imgs ts"
  shows "extract_text_from_file lib p w = (py_strip (py_join [LF] ts), w)"
proof -
  have "extract_try lib p = Inr (concat (map (\<lambda>t. t @ [LF]) ts))"
    using assms ocr_pages_ok [OF assms(3), of "[]"] by (simp add: extract_try_def)
  then show ?thesis by (simp add: extract_text_from_file_def strip_pages_py_join)
qed

text \<open>
  C14. When OCR raises on a page of a PDF, the error is printed and the text of the pages
  read before it is still returned (stripped): the result is not empty text, unlike what
  the spec (section 4.1) says of extraction failures.
\<close>

theorem extract_pdf_partial:
  assumes "file_ext p = ''pdf''"
    and "convert_from_path lib p = Inr (imgs @ bad # rest)"
    and "list_all2 (\<lambda>img t. image_to_string lib img = Inr t) imgs ts"
    and "image_to_string lib bad = Inl e"
  shows "extract_text_from_file lib p w = (py_strip (py_join [LF] ts), emit (OcrError p e) w)"
proof -
  have "extract_try lib p = Inl (e, concat (map (\<lambda>t. t @ [LF]) ts))"
    using assms ocr_pages_fail [OF assms(3,4), of rest "[]"] by (simp add: extract_try_def)
  then show ?thesis by (simp add: extract_text_from_file_def strip_pages_py_join)
qed

text \<open>C15. Any other file is opened as one image and its OCR text is returned, stripped.\<close>

theorem extract_image:
  assumes "file_ext p \<noteq> ''pdf''"
    and "image_open lib p = Inr img"
    and "image_to_string lib img = Inr t"
  shows "extract_text_from_file lib p w = (py_strip t, w)"
  using assms by (simp add: extract_text_from_file_def extract_try_def)

text \<open>
  C16. In the image branch an error of \<^verbatim>\<open>Image.open\<close> or of the OCR engine is printed
  and the result is the empty text.
\<close>

theorem extract_image_error:
  assumes "file_ext p \<noteq> ''pdf''"
    and "image_open lib p = Inl e \<or> (image_open lib p = Inr img \<and> image_to_string lib img = Inl e)"
  shows "extract_text_from_file lib p w = ([], emit (OcrError p e) w)"
  using assms by (auto simp: extract_text_from_file_def extract_try_def py_strip_def)

text \<open>
  C17. Whatever the libraries do, the returned text is stripped (it has no leading or
  trailing whitespace, so a second \<^verbatim>\<open>strip()\<close> changes nothing) and the only effect is
  at most one printed OCR error.
\<close>

theorem extract_text_shape:
  "extract_text_from_file lib p w = (t, w') \<Longrightarrow>
   py_strip t = t \<and> (w' = w \<or> (\<exists>e. w' = emit (OcrError p e) w))"
  by (auto simp: extract_text_from_file_def split: sum.splits)

text \<open>
  C27. When the PDF rasteriser fails on a PDF (a corrupt or unreadable file), the error is
  printed with the path and the text is empty, so the file is then skipped.
\<close>

theorem extract_pdf_convert_error:
  assumes "file_ext p = ''pdf''" and "convert_from_path lib p = Inl e"
  shows "extract_text_from_file lib p w = ([], emit (OcrError p e) w)"
  using assms by (simp add: extract_text_from_file_def extract_try_def py_strip_def)

end
