(* ===== verification/Prompt.thy ===== *)
theory Prompt
  imports Py_Value
begin

text \<open>
  The prompt builder: the template \<^verbatim>\<open>PROMPT\<close> (lines 14-27 of
  \<^verbatim>\<open>src/receiptscanner/local_receipt_parser_dual_ai.py\<close>) and
  \<^verbatim>\<open>PROMPT.format(receipt_text=text)\<close> (line 101).
  \<open>py_format\<close> is \<^verbatim>\<open>str.format\<close> with keyword arguments, in one pass over the template
  as CPython's formatter goes: literal text is copied, \<^verbatim>\<open>{{\<close> and \<^verbatim>\<open>}}\<close> are escaped
  braces, \<^verbatim>\<open>{name}\<close> is replaced by the argument's text, and the errors are raised where
  CPython meets them. Its result is \<open>None\<close> for replacement fields beyond a plain keyword
  name (conversions, format specs, attribute or index access, positional fields), which
  this model leaves out; the program's template has only the field \<^verbatim>\<open>{receipt_text}\<close>.
\<close>

definition plain_field :: "string \<Rightarrow> bool" where
  "plain_field name \<longleftrightarrow>
     name \<noteq> [] \<and> (\<forall>c \<in> set name. c \<notin> set ''{!:.['') \<and> \<not> (\<forall>c \<in> set name. c \<in> set ''0123456789'')"

definition map_res :: "(string \<Rightarrow> string) \<Rightarrow> (py_exc + string) option \<Rightarrow> (py_exc + string) option" where
  "map_res f r = map_option (case_sum Inl (\<lambda>s. Inr (f s))) r"

function py_format :: "string \<Rightarrow> (string \<times> string) list \<Rightarrow> (py_exc + string) option" where
  "py_format [] kw = Some (Inr [])"
| "py_format (c # cs) kw =
     (if c = CHR ''{'' then
        (case cs of
           [] \<Rightarrow> Some (Inl (ValueError ''Single '{' encountered in format string''))
         | d # ds \<Rightarrow>
             if d = CHR ''{'' then map_res (Cons CHR ''{'') (py_format ds kw)
             else
               (let name = takeWhile (\<lambda>x. x \<noteq> CHR ''}'') cs;
                    rest = dropWhile (\<lambda>x. x \<noteq> CHR ''}'') cs
                in if rest = [] then Some (Inl (ValueError ''expected '}' before end of string''))
                   else if \<not> plain_field name then None
                   else (case map_of kw name of
                           None \<Rightarrow> Some (Inl (KeyError (PStr name)))
                         | Some v \<Rightarrow> map_res (\<lambda>s. v @ s) (py_format (tl rest) kw))))
      else if c = CHR ''}'' then
        (case cs of
           d # ds \<Rightarrow>
             if d = CHR ''}'' then map_res (Cons CHR ''}'') (py_format ds kw)
             else Some (Inl (ValueError ''Single '}' encountered in format string''))
         | [] \<Rightarrow> Some (Inl (ValueError ''Single '}' encountered in format string'')))
      else map_res (Cons c) (py_format cs kw))"
  by pat_completeness auto
termination
proof (relation "measure (\<lambda>(s, kw). length s)")
  fix c d :: char and cs ds :: string and kw :: "(string \<times> string) list" and name rest :: string
  assume "cs = d # ds" "rest = dropWhile (\<lambda>x. x \<noteq> CHR ''}'') cs" "rest \<noteq> []"
  then show "((tl rest, kw), c # cs, kw) \<in> measure (\<lambda>(s, kw). length s)"
    using length_dropWhile_le [of "\<lambda>x. x \<noteq> CHR ''}''" cs] by auto
qed auto

text \<open>The template as the source writes it: a triple-quoted string opening with a newline.\<close>

definition PROMPT :: string where
  "PROMPT = ''\<newline>Extract the following fields from this receipt:\<newline>- Date\<newline>- Total Amount\<newline>- Tax Amount\<newline>- Payment Method\<newline>- Vendor Name\<newline>- Receipt Number (if available)\<newline>\<newline>Make sure your response is valid JSON with these keys.\<newline>\<newline>Receipt Text:\<newline>{receipt_text}\<newline>''"

text \<open>The template's text before its replacement field.\<close>

definition PROMPT_head :: string where
  "PROMPT_head = ''\<newline>Extract the following fields from this receipt:\<newline>- Date\<newline>- Total Amount\<newline>- Tax Amount\<newline>- Payment Method\<newline>- Vendor Name\<newline>- Receipt Number (if available)\<newline>\<newline>Make sure your response is valid JSON with these keys.\<newline>\<newline>Receipt Text:\<newline>''"

text \<open>
  The prompt the program sends for an OCR text, in closed form; \<open>format_PROMPT\<close> below
  shows that it is what \<^verbatim>\<open>PROMPT.format(receipt_text=text)\<close> returns.
\<close>

definition build_prompt :: "string \<Rightarrow> string" where
  "build_prompt text = PROMPT_head @ text @ [LF]"

declare map_res_def [model_defs] build_prompt_def [model_defs]

lemma map_res_Some_Inr [simp]: "map_res f (Some (Inr s)) = Some (Inr (f s))"
  by (simp add: map_res_def)

lemma PROMPT_parts: "PROMPT = PROMPT_head @ ''{receipt_text}'' @ [LF]"
  by (simp add: PROMPT_def PROMPT_head_def)

text \<open>Literal text without braces is copied as it is.\<close>

lemma py_format_literal:
  "CHR ''{'' \<notin> set s \<Longrightarrow> CHR ''}'' \<notin> set s \<Longrightarrow>
   py_format (s @ rest) kw = map_res (\<lambda>r. s @ r) (py_format rest kw)"
proof (induction s)
  case Nil
  then show ?case by (cases "py_format rest kw") (auto simp: map_res_def split: sum.splits)
next
  case (Cons c s)
  then show ?case by (cases "py_format rest kw") (auto simp: map_res_def split: sum.splits)
qed

lemma PROMPT_head_no_braces: "CHR ''{'' \<notin> set PROMPT_head" "CHR ''}'' \<notin> set PROMPT_head"
  by (simp_all add: PROMPT_head_def)

text \<open>
  C18. \<^verbatim>\<open>PROMPT.format(receipt_text=text)\<close> succeeds for every OCR text and returns
  the template's header, the text exactly as given, and the final newline: the text is
  inserted verbatim, with no escaping, and braces inside it are not interpreted.
\<close>

theorem format_PROMPT: "py_format PROMPT [(''receipt_text'', text)] = Some (Inr (build_prompt text))"
proof -
  have field: "py_format (''{receipt_text}'' @ [LF]) [(''receipt_text'', text)] = Some (Inr (text @ [LF]))"
    by (simp add: plain_field_def)
  show ?thesis
    by (simp only: PROMPT_parts py_format_literal [OF PROMPT_head_no_braces] field)
      (simp add: build_prompt_def)
qed

theorem format_PROMPT_witness:
  \<open>py_format PROMPT [(''receipt_text'', ''{"Total": "12.50"}'')] = Some (Inr (build_prompt ''{"Total": "12.50"}''))\<close>
  by (rule format_PROMPT)


end
