(* ===== verification/Client.thy ===== *)
theory Client
  imports World
begin

text \<open>
  The completion client \<^verbatim>\<open>ask_openrouter\<close> (lines 46-69 of
  \<^verbatim>\<open>src/receiptscanner/local_receipt_parser_dual_ai.py\<close>). The libraries it calls are
  parameters: \<^verbatim>\<open>httpx.post\<close> (which may raise, or return a response with a status code
  and a body text; it is indexed by the number of requests sent before, so that the remote
  service may answer each call differently) and the JSON parser behind
  \<^verbatim>\<open>response.json()\<close> and \<^verbatim>\<open>json.loads\<close>. The credential the source embeds as a literal
  (line 12) is the parameter \<open>api_key\<close>; the other constants are written out.
\<close>

record client_lib =
  http_post :: "nat \<Rightarrow> http_request \<Rightarrow> py_exc + http_response"
  json_loads :: "string \<Rightarrow> py_exc + pyval"
  api_key :: string

definition OPENROUTER_URL :: string where
  "OPENROUTER_URL = ''https://openrouter.ai/api/v1/chat/completions''"

definition MODEL_ID :: string where
  "MODEL_ID = ''mistralai/mixtral-8x7b''"

text \<open>The request of lines 48-59: URL, the four headers in order, and the JSON body.\<close>

definition openrouter_request :: "string \<Rightarrow> string \<Rightarrow> http_request" where
  "openrouter_request key prompt =
     \<lparr>req_url = OPENROUTER_URL,
      req_headers =
        [(''Authorization'', ''Bearer '' @ key),
         (''Content-Type'', ''application/json''),
         (''HTTP-Referer'', ''https://maserat.ca''),
         (''X-Title'', ''ReceiptParser'')],
      req_json =
        PDict [(''model'', PStr MODEL_ID),
               (''messages'', PList [PDict [(''role'', PStr ''user''), (''content'', PStr prompt)]])]\<rparr>"

text \<open>\<^verbatim>\<open>result['choices'][0]['message']['content']\<close> (line 65).\<close>

definition response_content :: "pyval \<Rightarrow> py_exc + pyval" where
  "response_content result =
     bind_exc (py_getitem result (PStr ''choices'')) (\<lambda>choices.
     bind_exc (py_getitem choices (PInt 0)) (\<lambda>choice.
     bind_exc (py_getitem choice (PStr ''message'')) (\<lambda>message.
     py_getitem message (PStr ''content''))))"

text \<open>
  Lines 59-69. The request counts as sent whether or not \<^verbatim>\<open>httpx.post\<close> returns. A status
  other than 200 prints the status and body and returns \<^verbatim>\<open>{}\<close>; on 200 the body is parsed,
  the content string extracted and parsed again; any exception on the way is printed and
  gives \<^verbatim>\<open>{}\<close>.
\<close>

definition ask_openrouter :: "client_lib \<Rightarrow> string \<Rightarrow> world \<Rightarrow> pyval \<times> world" where
  "ask_openrouter lib prompt w =
     (let req = openrouter_request (api_key lib) prompt;
          w1 = post req w
      in case http_post lib (length (sent w)) req of
           Inl e \<Rightarrow> (PDict [], emit (ApiError e) w1)
         | Inr resp \<Rightarrow>
             if status_code resp \<noteq> 200
             then (PDict [], emit (ApiStatusError (status_code resp) (resp_text resp)) w1)
             else
               (case bind_exc (json_loads lib (resp_text resp)) (\<lambda>result.
                     bind_exc (response_content result) (py_json_loads (json_loads lib))) of
                  Inl e \<Rightarrow> (PDict [], emit (ApiError e) w1)
                | Inr v \<Rightarrow> (v, w1)))"

declare openrouter_request_def [model_defs] response_content_def [model_defs]
  ask_openrouter_def [model_defs]

subsection \<open>Reading the completion out of the response\<close>

text \<open>
  The chain of subscripts succeeds exactly on a dict whose \<^verbatim>\<open>choices\<close> is a non-empty list
  whose first element is a dict with a dict \<^verbatim>\<open>message\<close> that has a \<^verbatim>\<open>content\<close>.
\<close>

lemma py_getitem_str_Inr:
  "py_getitem x (PStr k) = Inr y \<longleftrightarrow> (\<exists>ps. x = PDict ps \<and> map_of ps k = Some y)"
  by (cases x) (auto split: option.splits)

lemma py_getitem_zero_dict:
  "py_getitem x (PInt 0) = Inr (PDict c) \<longleftrightarrow> (\<exists>cs. x = PList (PDict c # cs))"
  by (cases x) (auto simp: py_index_def bind_exc_eq_Inr neq_Nil_conv)

text \<open>
  C25. The subscript chain of line 65 succeeds exactly on a dict whose \<^verbatim>\<open>choices\<close> is a
  non-empty list whose first element is a dict with a dict \<^verbatim>\<open>message\<close> holding a
  \<^verbatim>\<open>content\<close>; on every other shape it raises.
\<close>

lemma response_content_Inr_iff:
  "response_content result = Inr v \<longleftrightarrow>
   (\<exists>ps c cs m. result = PDict ps \<and> map_of ps ''choices'' = Some (PList (PDict c # cs)) \<and>
      map_of c ''message'' = Some (PDict m) \<and> map_of m ''content'' = Some v)"
  by (auto simp: response_content_def bind_exc_eq_Inr py_getitem_str_Inr py_getitem_zero_dict py_index_def)

lemma py_json_loads_Inr: "py_json_loads loads v = Inr x \<Longrightarrow> \<exists>c. v = PStr c \<and> loads c = Inr x"
  by (cases v) (auto simp: py_json_loads_def)

subsection \<open>Behaviour of \<^verbatim>\<open>ask_openrouter\<close>\<close>

abbreviation sent_one :: "client_lib \<Rightarrow> string \<Rightarrow> world \<Rightarrow> world" where
  "sent_one lib prompt w \<equiv> post (openrouter_request (api_key lib) prompt) w"

text \<open>
  The effect of a call on the world: the request is posted, then at most one line is
  printed; nothing else changes.
\<close>

lemma ask_world:
  "snd (ask_openrouter lib prompt w) = sent_one lib prompt w \<or>
   (\<exists>ev. ((\<exists>c t. ev = ApiStatusError c t) \<or> (\<exists>e. ev = ApiError e)) \<and>
        snd (ask_openrouter lib prompt w) = emit ev (sent_one lib prompt w))"
  by (auto simp: ask_openrouter_def Let_def split: sum.splits)

lemma ask_io:
  "\<exists>ns. io (snd (ask_openrouter lib prompt w)) =
          io w @ Posted (openrouter_request (api_key lib) prompt) # ns \<and> list_all is_note ns"
  using ask_world [of lib prompt w]
proof
  assume "snd (ask_openrouter lib prompt w) = sent_one lib prompt w"
  then show ?thesis by (intro exI [of _ "[]"]) simp
next
  assume "\<exists>ev. ((\<exists>c t. ev = ApiStatusError c t) \<or> (\<exists>e. ev = ApiError e)) \<and>
      snd (ask_openrouter lib prompt w) = emit ev (sent_one lib prompt w)"
  then obtain ev where "(\<exists>c t. ev = ApiStatusError c t) \<or> (\<exists>e. ev = ApiError e)"
    and "snd (ask_openrouter lib prompt w) = emit ev (sent_one lib prompt w)" by blast
  then show ?thesis by (intro exI [of _ "[Printed ev]"]) auto
qed

text \<open>
  C19. Every call sends exactly one request, the one of lines 48-58 carrying the prompt as
  the single user message, whatever the outcome; the files and the input folder are left
  alone, and in the trace the request comes first, followed by at most one printed line.
\<close>

theorem ask_sends_one_request:
  "sent (snd (ask_openrouter lib prompt w)) = sent w @ [openrouter_request (api_key lib) prompt] \<and>
   files (snd (ask_openrouter lib prompt w)) = files w \<and>
   folder (snd (ask_openrouter lib prompt w)) = folder w \<and>
   (\<exists>evs. io (snd (ask_openrouter lib prompt w)) =
      io w @ Posted (openrouter_request (api_key lib) prompt) # map Printed evs \<and> length evs \<le> 1)"
  using ask_world [of lib prompt w]
proof
  assume "snd (ask_openrouter lib prompt w) = sent_one lib prompt w"
  then show ?thesis by (auto intro!: exI [of _ "[]"])
next
  assume "\<exists>ev. ((\<exists>c t. ev = ApiStatusError c t) \<or> (\<exists>e. ev = ApiError e)) \<and>
      snd (ask_openrouter lib prompt w) = emit ev (sent_one lib prompt w)"
  then obtain ev where "snd (ask_openrouter lib prompt w) = emit ev (sent_one lib prompt w)" by blast
  then show ?thesis by (auto intro!: exI [of _ "[ev]"])
qed

text \<open>
  C20. A response with a status other than 200 is printed with its body and the client
  returns the empty dict, without parsing anything.
\<close>

theorem ask_status_error:
  assumes "http_post lib (length (sent w)) (openrouter_request (api_key lib) prompt) = Inr resp"
    and "status_code resp \<noteq> 200"
  shows "ask_openrouter lib prompt w =
           (PDict [], emit (ApiStatusError (status_code resp) (resp_text resp)) (sent_one lib prompt w))"
  using assms by (simp add: ask_openrouter_def)

text \<open>
  C21. On status 200, a body whose \<^verbatim>\<open>choices[0].message.content\<close> is a string that
  parses as JSON yields that parsed value, and nothing is printed.
\<close>

theorem ask_success:
  assumes "http_post lib (length (sent w)) (openrouter_request (api_key lib) prompt) = Inr resp"
    and "status_code resp = 200"
    and "json_loads lib (resp_text resp) = Inr result"
    and "response_content result = Inr (PStr content)"
    and "json_loads lib content = Inr v"
  shows "ask_openrouter lib prompt w = (v, sent_one lib prompt w)"
  using assms by (simp add: ask_openrouter_def py_json_loads_def)

text \<open>
  C22. On status 200, a body that does not parse, or that lacks the
  \<^verbatim>\<open>choices[0].message.content\<close> path, or whose content is not a string or not JSON,
  is reported as an error and gives the empty dict.
\<close>

theorem ask_malformed:
  assumes "http_post lib (length (sent w)) (openrouter_request (api_key lib) prompt) = Inr resp"
    and "status_code resp = 200"
    and "bind_exc (json_loads lib (resp_text resp))
           (\<lambda>r. bind_exc (response_content r) (py_json_loads (json_loads lib))) = Inl e"
  shows "ask_openrouter lib prompt w = (PDict [], emit (ApiError e) (sent_one lib prompt w))"
  using assms by (simp add: ask_openrouter_def)

text \<open>
  A client whose parser only ever produces JSON objects gets a dict from every call, since
  on its error paths it returns the empty dict.
\<close>

lemma ask_dict:
  assumes "\<forall>s v. json_loads lib s = Inr v \<longrightarrow> (\<exists>ps. v = PDict ps)"
  shows "\<exists>ps. fst (ask_openrouter lib prompt w) = PDict ps"
  using assms by (auto simp: ask_openrouter_def Let_def bind_exc_eq_Inr dest: py_json_loads_Inr
      split: sum.splits)

text \<open>A service that never answers with status 200 makes every call return the empty dict.\<close>

lemma ask_down:
  assumes "\<And>resp. http_post lib (length (sent w)) (openrouter_request (api_key lib) prompt) = Inr resp \<Longrightarrow>
             status_code resp \<noteq> 200"
  shows "fst (ask_openrouter lib prompt w) = PDict []"
  using assms by (auto simp: ask_openrouter_def Let_def split: sum.splits)

text \<open>
  C23. The client never makes a value up: what it returns is either the empty dict of an
  error path, or the value \<^verbatim>\<open>json.loads\<close> makes of the string at
  \<^verbatim>\<open>choices[0].message.content\<close> of the parsed body of a status-200 response to this
  call's request.
\<close>

theorem ask_result_origin:
  "fst (ask_openrouter lib prompt w) = PDict [] \<or>
   (\<exists>resp result content.
      http_post lib (length (sent w)) (openrouter_request (api_key lib) prompt) = Inr resp \<and>
      status_code resp = 200 \<and> json_loads lib (resp_text resp) = Inr result \<and>
      response_content result = Inr (PStr content) \<and>
      json_loads lib content = Inr (fst (ask_openrouter lib prompt w)))"
  by (auto simp: ask_openrouter_def Let_def bind_exc_eq_Inr dest!: py_json_loads_Inr
           split: sum.splits)

end
