(* ===== verification/Csv_Writer.thy ===== *)
theory Csv_Writer
  imports World
begin

text \<open>
  The record writer \<^verbatim>\<open>save_to_csv\<close> (lines 71-84 of
  \<^verbatim>\<open>src/receiptscanner/local_receipt_parser_dual_ai.py\<close>) together with what
  \<^verbatim>\<open>csv.writer(f).writerow\<close> writes in CPython's default \<^verbatim>\<open>excel\<close> dialect: fields
  separated by commas, a field quoted (\<^verbatim>\<open>QUOTE_MINIMAL\<close>) when it contains a comma, a
  double quote, a carriage return or a line feed, a double quote inside a quoted field
  doubled, every row ended by \<^verbatim>\<open>\r\n\<close> (the file is opened with \<^verbatim>\<open>newline=""\<close>, so the
  terminator reaches the file unchanged), and a row made of one empty field written as
  \<^verbatim>\<open>""\<close>. The output file is \<open>files w path\<close>; opening it in append mode creates it
  empty, and \<^verbatim>\<open>f.tell() == 0\<close> holds exactly when it is empty.

  \<open>csv_read\<close> is a reader for the files this writer produces, stated here as the
  specification the output is checked against (it is not code of the program): the
  round-trip theorems say that reading back what was written gives the rows written.
\<close>

definition csv_special :: "char \<Rightarrow> bool" where
  "csv_special c \<longleftrightarrow> c = CHR '','' \<or> c = DQ \<or> c = CR \<or> c = LF"

definition csv_field :: "string \<Rightarrow> string" where
  "csv_field s =
     (if \<exists>c \<in> set s. csv_special c
      then DQ # concat (map (\<lambda>c. if c = DQ then [DQ, DQ] else [c]) s) @ [DQ]
      else s)"

definition csv_writerow :: "string list \<Rightarrow> string" where
  "csv_writerow fs = (if fs = [[]] then [DQ, DQ] else py_join '','' (map csv_field fs)) @ crlf"

definition CSV_HEADER :: "string list" where
  "CSV_HEADER = [''File'', ''Date'', ''Total'', ''Tax'', ''Payment Method'', ''Vendor'', ''Receipt Number'']"

text \<open>The keys read from the record, in the order of the columns (lines 77-83).\<close>

definition CSV_KEYS :: "string list" where
  "CSV_KEYS = [''File'', ''Date'', ''Total Amount'', ''Tax Amount'', ''Payment Method'', ''Vendor Name'', ''Receipt Number'']"

definition csv_record :: "(string \<times> pyval) list \<Rightarrow> string list" where
  "csv_record data = map (\<lambda>k. csv_str (py_dict_get data k (PStr []))) CSV_KEYS"

definition save_to_csv :: "string \<Rightarrow> (string \<times> pyval) list \<Rightarrow> world \<Rightarrow> world" where
  "save_to_csv path data w =
     (let w1 = (if file_content w path = [] then append_file path (csv_writerow CSV_HEADER) w else w)
      in append_file path (csv_writerow (csv_record data)) w1)"

subsection \<open>Reading CSV back\<close>

text \<open>
  A character automaton: at the start of a field, inside an unquoted field, inside a quoted
  field, just after a quote inside a quoted field, and after a carriage return. It keeps
  the current field, the fields of the current row and the rows read so far.
\<close>

datatype csv_state = FStart | FUnq | FQuo | FQuoEnd | FCR

fun csv_lex :: "csv_state \<Rightarrow> string \<Rightarrow> string list \<Rightarrow> string list list \<Rightarrow> string \<Rightarrow> string list list option" where
  "csv_lex FStart [] [] rows [] = Some rows"
| "csv_lex st fld fs rows [] = None"
| "csv_lex FStart fld fs rows (c # cs) =
     (if c = CHR '','' then csv_lex FStart [] (fs @ [fld]) rows cs
      else if c = DQ then csv_lex FQuo fld fs rows cs
      else if c = CR then csv_lex FCR fld fs rows cs
      else if c = LF then None
      else csv_lex FUnq (fld @ [c]) fs rows cs)"
| "csv_lex FUnq fld fs rows (c # cs) =
     (if c = CHR '','' then csv_lex FStart [] (fs @ [fld]) rows cs
      else if c = CR then csv_lex FCR fld fs rows cs
      else if c = DQ \<or> c = LF then None
      else csv_lex FUnq (fld @ [c]) fs rows cs)"
| "csv_lex FQuo fld fs rows (c # cs) =
     (if c = DQ then csv_lex FQuoEnd fld fs rows cs else csv_lex FQuo (fld @ [c]) fs rows cs)"
| "csv_lex FQuoEnd fld fs rows (c # cs) =
     (if c = DQ then csv_lex FQuo (fld @ [DQ]) fs rows cs
      else if c = CHR '','' then csv_lex FStart [] (fs @ [fld]) rows cs
      else if c = CR then csv_lex FCR fld fs rows cs
      else None)"
| "csv_lex FCR fld fs rows (c # cs) =
     (if c = LF then csv_lex FStart [] [] (rows @ [fs @ [fld]]) cs else None)"

definition csv_read :: "string \<Rightarrow> string list list option" where
  "csv_read s = csv_lex FStart [] [] [] s"

text \<open>The invariant of the output file: it reads back as a table, headed by the header row.\<close>

definition csv_table :: "string \<Rightarrow> bool" where
  "csv_table c \<longleftrightarrow> (case csv_read c of None \<Rightarrow> False | Some rows \<Rightarrow> rows = [] \<or> hd rows = CSV_HEADER)"

text \<open>
  The columns as the spec fixes them (sections 3, 4 and 6): each header name with the
  field of the parsed receipt written under it. This is the specification the row is
  checked against, not code of the program.
\<close>

definition receipt_columns :: "(string \<times> string) list" where
  "receipt_columns =
     [(''File'', ''File''), (''Date'', ''Date''), (''Total'', ''Total Amount''), (''Tax'', ''Tax Amount''),
      (''Payment Method'', ''Payment Method''), (''Vendor'', ''Vendor Name''),
      (''Receipt Number'', ''Receipt Number'')]"

abbreviation field_end :: "csv_state \<Rightarrow> bool" where
  "field_end st \<equiv> st = FStart \<or> st = FUnq \<or> st = FQuoEnd"

declare csv_field_def [model_defs] csv_writerow_def [model_defs] CSV_HEADER_def [model_defs]
  CSV_KEYS_def [model_defs] csv_record_def [model_defs]
  save_to_csv_def [model_defs] csv_read_def [model_defs]

subsection \<open>Round trip of the writer\<close>

lemma csv_lex_end_comma:
  "field_end st \<Longrightarrow> csv_lex st fld fs rows (CHR '','' # rest) = csv_lex FStart [] (fs @ [fld]) rows rest"
  by (auto simp: csv_special_def)

lemma csv_lex_end_crlf:
  "field_end st \<Longrightarrow> csv_lex st fld fs rows (CR # LF # rest) = csv_lex FStart [] [] (rows @ [fs @ [fld]]) rest"
  by auto

lemma csv_lex_unquoted:
  "\<forall>c \<in> set s. \<not> csv_special c \<Longrightarrow> csv_lex FUnq fld fs rows (s @ rest) = csv_lex FUnq (fld @ s) fs rows rest"
  by (induction s arbitrary: fld) (auto simp: csv_special_def)

lemma csv_lex_quoted:
  "csv_lex FQuo fld fs rows (concat (map (\<lambda>c. if c = DQ then [DQ, DQ] else [c]) s) @ DQ # rest) =
   csv_lex FQuoEnd (fld @ s) fs rows rest"
  by (induction s arbitrary: fld) auto

lemma csv_lex_field:
  "\<exists>st. field_end st \<and> csv_lex FStart [] fs rows (csv_field s @ rest) = csv_lex st s fs rows rest"
proof (cases "\<exists>c \<in> set s. csv_special c")
  case True
  then show ?thesis using csv_lex_quoted [of "[]" fs rows s rest] by (auto simp: csv_field_def)
next
  case False
  show ?thesis
  proof (cases s)
    case Nil
    with False show ?thesis by (auto simp: csv_field_def)
  next
    case (Cons c s')
    with False have "\<not> csv_special c" "\<forall>c \<in> set s'. \<not> csv_special c" by auto
    with Cons False show ?thesis
      using csv_lex_unquoted [of s' "[c]" fs rows rest] by (auto simp: csv_field_def csv_special_def)
  qed
qed

lemma csv_lex_fields:
  "fs \<noteq> [] \<Longrightarrow>
   csv_lex FStart [] acc rows (py_join '','' (map csv_field fs) @ crlf @ rest) =
   csv_lex FStart [] [] (rows @ [acc @ fs]) rest"
proof (induction fs arbitrary: acc)
  case Nil
  then show ?case by simp
next
  case (Cons f fs)
  show ?case
  proof (cases "fs = []")
    case True
    obtain st where "field_end st"
      and "csv_lex FStart [] acc rows (csv_field f @ crlf @ rest) = csv_lex st f acc rows (crlf @ rest)"
      using csv_lex_field by blast
    with True show ?thesis using csv_lex_end_crlf by auto
  next
    case False
    obtain st where "field_end st"
      and st: "csv_lex FStart [] acc rows (csv_field f @ CHR '','' # py_join '','' (map csv_field fs) @ crlf @ rest) =
         csv_lex st f acc rows (CHR '','' # py_join '','' (map csv_field fs) @ crlf @ rest)"
      using csv_lex_field by blast
    with False Cons.IH [of "acc @ [f]"] show ?thesis
      by (simp add: py_join_Cons csv_lex_end_comma del: csv_lex.simps)
  qed
qed

lemma csv_lex_writerow:
  "fs \<noteq> [] \<Longrightarrow> csv_lex FStart [] [] rows (csv_writerow fs @ rest) = csv_lex FStart [] [] (rows @ [fs]) rest"
  using csv_lex_fields [of fs "[]" rows rest] by (auto simp: csv_writerow_def)

lemma csv_lex_writerows:
  "\<forall>r \<in> set rs. r \<noteq> [] \<Longrightarrow> csv_lex FStart [] [] rows (concat (map csv_writerow rs)) = Some (rows @ rs)"
  by (induction rs arbitrary: rows) (simp_all add: csv_lex_writerow [where rest = "concat _", simplified])

text \<open>
  C5. Round trip: reading back the concatenation of written rows gives the rows, for any
  field contents (commas, quotes, line breaks included), as long as no row is empty.
\<close>

theorem csv_read_writerows:
  "\<forall>r \<in> set rs. r \<noteq> [] \<Longrightarrow> csv_read (concat (map csv_writerow rs)) = Some rs"
  by (simp add: csv_read_def csv_lex_writerows)


subsection \<open>The output file as a table\<close>

lemma csv_lex_rows_acc:
  "csv_lex st fld fs (rows @ rows') d = map_option ((@) rows) (csv_lex st fld fs rows' d)"
  by (induction st fld fs rows' d rule: csv_lex.induct) auto

lemma csv_lex_append:
  "csv_lex st fld fs rows c = Some rows' \<Longrightarrow> csv_lex st fld fs rows (c @ d) = csv_lex FStart [] [] rows' d"
  by (induction st fld fs rows c rule: csv_lex.induct) (auto split: if_splits)

lemma csv_lex_grows:
  "csv_lex st fld fs rows c = Some rows' \<Longrightarrow>
   (c = [] \<and> st = FStart \<and> fld = [] \<and> fs = [] \<and> rows' = rows) \<or> length rows < length rows'"
  by (induction st fld fs rows c rule: csv_lex.induct) (auto split: if_splits)

lemma csv_read_Nil_iff: "csv_read c = Some [] \<longleftrightarrow> c = []"
  using csv_lex_grows [of FStart "[]" "[]" "[]" c "[]"] by (auto simp: csv_read_def)

lemma length_csv_record [simp]: "length (csv_record data) = 7"
  by (simp add: csv_record_def CSV_KEYS_def)

lemma hd_csv_record: "hd (csv_record d) = csv_str (py_dict_get d ''File'' (PStr []))"
  by (simp add: csv_record_def CSV_KEYS_def)

lemma csv_record_not_Nil [simp]: "csv_record data \<noteq> []"
  by (simp add: csv_record_def CSV_KEYS_def)

text \<open>
  If the file reads back as some rows, after the call it reads back as the same rows
  followed by the new record, with the header row written first exactly when the file was
  empty.
\<close>

text \<open>The chunks one call writes: the header row if the file is empty, then the record's row.\<close>

abbreviation save_chunks :: "string \<Rightarrow> (string \<times> pyval) list \<Rightarrow> world \<Rightarrow> string list" where
  "save_chunks path data w \<equiv>
     (if file_content w path = [] then [csv_writerow CSV_HEADER] else []) @ [csv_writerow (csv_record data)]"

lemma save_to_csv_effects:
  "files (save_to_csv path data w) = (files w)(path \<mapsto> file_content w path @ concat (save_chunks path data w))"
  "io (save_to_csv path data w) = io w @ map (Appended path) (save_chunks path data w)"
  "file_content (save_to_csv path data w) path = file_content w path @ concat (save_chunks path data w)"
  by (simp_all add: save_to_csv_def append_file_def file_content_def Let_def)

lemma save_to_csv_frame [simp]:
  "sent (save_to_csv p data w) = sent w" "folder (save_to_csv p data w) = folder w"
  "console (save_to_csv p data w) = console w"
  by (simp_all add: save_to_csv_def Let_def)

lemma csv_read_save:
  assumes "csv_read (file_content w path) = Some rows"
  shows "csv_read (file_content (save_to_csv path data w) path) =
           Some ((if rows = [] then [CSV_HEADER] else rows) @ [csv_record data])"
proof (cases "rows = []")
  case True
  with assms have "file_content w path = []" by (simp add: csv_read_Nil_iff)
  then have "file_content (save_to_csv path data w) path =
      concat (map csv_writerow [CSV_HEADER, csv_record data])"
    by (simp add: save_to_csv_effects)
  moreover have "csv_read (concat (map csv_writerow [CSV_HEADER, csv_record data])) =
      Some [CSV_HEADER, csv_record data]"
    using csv_lex_writerows [of "[CSV_HEADER, csv_record data]" "[]"] by (auto simp: csv_read_def CSV_HEADER_def)
  ultimately show ?thesis using True by simp
next
  case False
  with assms have ne: "file_content w path \<noteq> []" by (auto simp: csv_read_def)
  then have "file_content (save_to_csv path data w) path = file_content w path @ csv_writerow (csv_record data)"
    by (simp add: save_to_csv_effects)
  moreover have "csv_lex FStart [] [] rows (csv_writerow (csv_record data)) = Some (rows @ [csv_record data])"
    using csv_lex_writerow [of "csv_record data" rows "[]"] by auto
  ultimately show ?thesis
    using False assms by (simp add: csv_read_def csv_lex_append)
qed

text \<open>
  C7. Starting from an empty or missing output file, any sequence of calls leaves a file
  that reads back as the header row once, followed by one row per call in call order.
\<close>

theorem saves_read_back:
  assumes "file_content w path = []"
  shows "csv_read (file_content (fold (save_to_csv path) ds w) path) =
           Some (if ds = [] then [] else CSV_HEADER # map csv_record ds)"
proof (induction ds rule: rev_induct)
  case Nil
  with assms show ?case by (simp add: csv_read_def)
next
  case (snoc d ds)
  then show ?case by (simp add: csv_read_save)
qed

text \<open>
  C6. \<^verbatim>\<open>save_to_csv\<close> keeps the output file a CSV table whose first row is the
  header: the property holds of an empty file and every call preserves it.
\<close>

theorem save_to_csv_table:
  "csv_table (file_content w path) \<Longrightarrow> csv_table (file_content (save_to_csv path data w) path)"
  by (auto simp: csv_table_def csv_read_save split: option.splits)


subsection \<open>Behaviour of \<^verbatim>\<open>save_to_csv\<close>\<close>

lemma csv_str_dict_get:
  "csv_str (py_dict_get d k (PStr [])) = (case map_of d k of Some v \<Rightarrow> csv_str v | None \<Rightarrow> [])"
  by (simp add: py_dict_get_def split: option.split)

lemma csv_read_writerow: "r \<noteq> [] \<Longrightarrow> csv_read (csv_writerow r) = Some [r]"
  using csv_lex_writerow [of r "[]" "[]"] by (simp add: csv_read_def)

text \<open>
  C11. The row lines up with the header as the spec fixes the columns: pairing the header
  row of line 75 with the row of lines 76-84 puts under each header name the value the
  record holds for that column's field (Total Amount under Total, Tax Amount under Tax,
  Vendor Name under Vendor), or the empty field when the key is absent. The row therefore
  depends on the record only through its key-value mapping, never on the order of its keys.
\<close>

theorem csv_record_columns:
  "zip CSV_HEADER (csv_record d) =
   map (\<lambda>(h, k). (h, case map_of d k of Some v \<Rightarrow> csv_str v | None \<Rightarrow> [])) receipt_columns"
  by (simp add: csv_record_def CSV_KEYS_def CSV_HEADER_def receipt_columns_def csv_str_dict_get)

text \<open>
  C28. No partial rows: one call of \<^verbatim>\<open>save_to_csv\<close> appends to the output file a
  non-empty sequence of writes, the last being the record's row, and each write is one
  complete row of seven fields that reads back on its own as exactly that row.
\<close>

theorem save_to_csv_whole_rows:
  "\<exists>chunks. io (save_to_csv path data w) = io w @ map (Appended path) chunks \<and>
     file_content (save_to_csv path data w) path = file_content w path @ concat chunks \<and>
     chunks \<noteq> [] \<and> last chunks = csv_writerow (csv_record data) \<and>
     list_all (\<lambda>c. \<exists>r. csv_read c = Some [r] \<and> length r = 7) chunks"
  by (intro exI [of _ "save_chunks path data w"])
    (simp add: save_to_csv_effects csv_read_writerow CSV_HEADER_def)

subsection \<open>Witnesses\<close>

theorem csv_read_writerows_witness:
  \<open>csv_read (concat (map csv_writerow [[''Cafe X, Inc.'', ''say "hi"'', []], [''a'']])) =
     Some [[''Cafe X, Inc.'', ''say "hi"'', []], [''a'']]\<close>
  by (rule csv_read_writerows) simp

theorem save_to_csv_table_witness:
  "csv_table (file_content (save_to_csv ''out.csv'' [(''File'', PStr ''a.jpg'')]
     \<lparr>console = [], sent = [], files = Map.empty, folder = Missing, io = []\<rparr>) ''out.csv'')"
  by (rule save_to_csv_table) (simp add: csv_table_def csv_read_def file_content_def)

theorem saves_read_back_witness:
  "csv_read (file_content (fold (save_to_csv ''out.csv'') [[(''File'', PStr ''a.jpg'')], [(''Vendor Name'', PStr ''Cafe, X'')]]
     \<lparr>console = [], sent = [], files = Map.empty, folder = Missing, io = []\<rparr>) ''out.csv'') =
   Some [CSV_HEADER, csv_record [(''File'', PStr ''a.jpg'')], csv_record [(''Vendor Name'', PStr ''Cafe, X'')]]"
  by (rule saves_read_back [THEN trans]) (simp_all add: file_content_def)

end
