(* ===== verification/Orchestrator.thy ===== *)
theory Orchestrator
  imports Extractor Prompt Client Csv_Writer
begin

text \<open>
  The orchestrator \<^verbatim>\<open>run\<close> (lines 88-104 of
  \<^verbatim>\<open>src/receiptscanner/local_receipt_parser_dual_ai.py\<close>): create the input folder if it
  is missing, list it, and for each regular file print its name, extract its text, skip it
  when the text is empty, otherwise build the prompt, ask the model, put the file name under
  \<^verbatim>\<open>"File"\<close> and append the record to the CSV file. The loop is a structural recursion
  over the listing; an exception the code does not catch ends the run, returned as
  \<open>Inl\<close> with the exception and the world at that moment (rows already written stay written).
\<close>

record 'img libs =
  ocr :: "'img ocr_lib"
  client :: client_lib

definition FOLDER_PATH :: string where "FOLDER_PATH = ''./assets''"

definition CSV_OUTPUT :: string where "CSV_OUTPUT = ''parsed_receipts_gemini_openrouter.csv''"

text \<open>\<^verbatim>\<open>os.makedirs(FOLDER_PATH, exist_ok=True)\<close>: creates a missing folder, accepts an
  existing directory, and raises when the path exists but is not a directory.\<close>

definition os_makedirs :: "string \<Rightarrow> world \<Rightarrow> py_exc + world" where
  "os_makedirs p w =
     (case folder w of
        Missing \<Rightarrow> Inr (w\<lparr>folder := Dir []\<rparr>)
      | NotADir \<Rightarrow> Inl (FileExistsError p)
      | Dir es \<Rightarrow> Inr w)"

definition os_listdir :: "string \<Rightarrow> world \<Rightarrow> py_exc + dir_entry list" where
  "os_listdir p w =
     (case folder w of
        Missing \<Rightarrow> Inl (FileNotFoundError p)
      | NotADir \<Rightarrow> Inl (NotADirectoryError p)
      | Dir es \<Rightarrow> Inr es)"

text \<open>The body of the \<^verbatim>\<open>for\<close> loop (lines 91-104), over the remaining entries.\<close>

fun process_entries :: "'img libs \<Rightarrow> dir_entry list \<Rightarrow> world \<Rightarrow> (py_exc \<times> world) + world" where
  "process_entries L [] w = Inr w"
| "process_entries L (e # es) w =
     (if \<not> entry_is_file e then process_entries L es w
      else
        (let filename = entry_name e;
             path = os_path_join FOLDER_PATH filename;
             w1 = emit (Processing filename) w;
             (text, w2) = extract_text_from_file (ocr L) path w1
         in if text = [] then process_entries L es (emit (SkippedNoText filename) w2)
            else
              (let (result, w3) = ask_openrouter (client L) (build_prompt text) w2
               in case py_setitem_str result ''File'' (PStr filename) of
                    Inl exc \<Rightarrow> Inl (exc, w3)
                  | Inr data \<Rightarrow> process_entries L es (save_to_csv CSV_OUTPUT data w3))))"

definition run :: "'img libs \<Rightarrow> world \<Rightarrow> (py_exc \<times> world) + world" where
  "run L w =
     (case os_makedirs FOLDER_PATH w of
        Inl e \<Rightarrow> Inl (e, w)
      | Inr w1 \<Rightarrow>
          (case os_listdir FOLDER_PATH w1 of
             Inl e \<Rightarrow> Inl (e, w1)
           | Inr es \<Rightarrow> process_entries L es w1))"

subsection \<open>Abstract view of a run\<close>

text \<open>
  What a run promises, stated without the console and the requests: the text an entry
  yields (the extractor's text does not depend on the world), which entries are
  processed, and the table the CSV file holds after rows are added to it.
\<close>

definition entry_text :: "'img libs \<Rightarrow> dir_entry \<Rightarrow> string" where
  "entry_text L e = fst (extract_text_from_file (ocr L) (os_path_join FOLDER_PATH (entry_name e)) (start_world Missing))"

definition has_text :: "'img libs \<Rightarrow> dir_entry \<Rightarrow> bool" where
  "has_text L e \<longleftrightarrow> entry_is_file e \<and> entry_text L e \<noteq> []"

definition with_header :: "string list list \<Rightarrow> string list list \<Rightarrow> string list list" where
  "with_header rows recs = (if rows = [] \<and> recs \<noteq> [] then CSV_HEADER # recs else rows @ recs)"

definition listing :: "world \<Rightarrow> dir_entry list" where
  "listing w = (case folder w of Dir es \<Rightarrow> es | _ \<Rightarrow> [])"

text \<open>The world a run leaves, whether it completed or stopped at an exception.\<close>

fun res_world :: "(py_exc \<times> world) + world \<Rightarrow> world" where
  "res_world (Inl (e, w)) = w"
| "res_world (Inr w) = w"

declare FOLDER_PATH_def [model_defs] CSV_OUTPUT_def [model_defs] os_makedirs_def [model_defs]
  os_listdir_def [model_defs] run_def [model_defs]

subsection \<open>One entry\<close>

lemma process_entry_file_cases:
  assumes "entry_is_file e"
    and "extract_text_from_file (ocr L) (os_path_join FOLDER_PATH (entry_name e)) (emit (Processing (entry_name e)) w) = (tx, w2)"
    and "ask_openrouter (client L) (build_prompt tx) w2 = (result, w3)"
  shows "process_entries L (e # es) w =
    (if tx = [] then process_entries L es (emit (SkippedNoText (entry_name e)) w2)
     else (case py_setitem_str result ''File'' (PStr (entry_name e)) of
             Inl exc \<Rightarrow> Inl (exc, w3)
           | Inr data \<Rightarrow> process_entries L es (save_to_csv CSV_OUTPUT data w3)))"
  using assms by (simp add: Let_def)

text \<open>
  What extracting and asking do to the world for one entry: the text is the entry's text,
  the request for it is sent, and the files and the folder are untouched.
\<close>

lemma entry_worlds:
  assumes ex: "extract_text_from_file (ocr L) (os_path_join FOLDER_PATH (entry_name e))
                 (emit (Processing (entry_name e)) w) = (tx, w2)"
    and ask: "ask_openrouter (client L) (build_prompt tx) w2 = (result, w3)"
  shows "entry_text L e = tx" and "files w2 = files w" and "sent w2 = sent w"
    and "folder w2 = folder w" and "files w3 = files w" and "folder w3 = folder w"
    and "sent w3 = sent w @ [openrouter_request (api_key (client L)) (build_prompt tx)]"
proof -
  show "entry_text L e = tx"
    using extract_text_world ex unfolding entry_text_def by (metis fst_conv)
  have fr: "files w2 = files w" "sent w2 = sent w" "folder w2 = folder w"
    using extract_text_frame [of "ocr L" "os_path_join FOLDER_PATH (entry_name e)"
        "emit (Processing (entry_name e)) w"] ex by simp_all
  then show "files w2 = files w" "sent w2 = sent w" "folder w2 = folder w" by simp_all
  show "files w3 = files w" "folder w3 = folder w"
    "sent w3 = sent w @ [openrouter_request (api_key (client L)) (build_prompt tx)]"
    using ask_world [of "client L" "build_prompt tx" w2] ask fr by auto
qed

text \<open>The three ways an entry that is a regular file is handled.\<close>

lemma process_entry_outcomes:
  assumes "entry_is_file e"
    and ex: "extract_text_from_file (ocr L) (os_path_join FOLDER_PATH (entry_name e))
               (emit (Processing (entry_name e)) w) = (tx, w2)"
    and ask: "ask_openrouter (client L) (build_prompt tx) w2 = (result, w3)"
  obtains (skip) "\<not> has_text L e"
      "process_entries L (e # es) w = process_entries L es (emit (SkippedNoText (entry_name e)) w2)"
    | (abort) exc where "has_text L e" "process_entries L (e # es) w = Inl (exc, w3)" "exc = TypeError"
    | (save) data where "has_text L e" "hd (csv_record data) = entry_name e"
      "process_entries L (e # es) w = process_entries L es (save_to_csv CSV_OUTPUT data w3)"
proof -
  have tx: "entry_text L e = tx" by (rule entry_worlds(1) [OF ex ask])
  note pe = process_entry_file_cases [OF assms(1) ex ask, where es=es]
  show thesis
  proof (cases "tx = []")
    case True
    then show thesis using skip pe tx assms(1) by (simp add: has_text_def)
  next
    case False
    then have ht: "has_text L e" using tx assms(1) by (simp add: has_text_def)
    show thesis
    proof (cases "py_setitem_str result ''File'' (PStr (entry_name e))")
      case (Inl exc)
      moreover have "exc = TypeError" using Inl by (cases result) simp_all
      ultimately show thesis using abort ht pe False by simp
    next
      case (Inr data)
      then obtain ps where "data = dict_set ''File'' (PStr (entry_name e)) ps"
        by (cases result) auto
      then have "hd (csv_record data) = entry_name e"
        by (simp add: hd_csv_record py_dict_get_def map_of_dict_set)
      then show thesis using save ht pe False Inr by simp
    qed
  qed
qed

text \<open>
  Induction over the listing with the effects of one regular file named: its text
  \<open>tx\<close> and the world \<open>w2\<close> after extraction, the answer and the world \<open>w3\<close> after asking.
\<close>

lemma process_entries_induct [case_names Nil Skip File]:
  assumes "\<And>w. P [] w"
    and "\<And>e es w. \<not> entry_is_file e \<Longrightarrow> P es w \<Longrightarrow> P (e # es) w"
    and "\<And>e es w tx w2 result w3. entry_is_file e \<Longrightarrow>
           extract_text_from_file (ocr L) (os_path_join FOLDER_PATH (entry_name e))
             (emit (Processing (entry_name e)) w) = (tx, w2) \<Longrightarrow>
           ask_openrouter (client L) (build_prompt tx) w2 = (result, w3) \<Longrightarrow>
           (\<And>w'. P es w') \<Longrightarrow> P (e # es) w"
  shows "P es w"
proof (induction es arbitrary: w)
  case Nil
  then show ?case by (rule assms(1))
next
  case (Cons e es)
  show ?case
  proof (cases "entry_is_file e")
    case False
    then show ?thesis using Cons.IH by (rule assms(2))
  next
    case True
    obtain tx w2 where "extract_text_from_file (ocr L) (os_path_join FOLDER_PATH (entry_name e))
        (emit (Processing (entry_name e)) w) = (tx, w2)" by fastforce
    moreover obtain result w3 where "ask_openrouter (client L) (build_prompt tx) w2 = (result, w3)"
      by fastforce
    ultimately show ?thesis by (rule assms(3) [OF True _ _ Cons.IH])
  qed
qed

subsection \<open>The loop, completed or stopped\<close>

text \<open>
  Whatever the outcome, the rows added are those of a prefix of the files with text, each
  named in its File column; when the loop completes the prefix is all of them.
\<close>

lemma process_entries_rows_gen:
  assumes "csv_read (file_content w CSV_OUTPUT) = Some rows"
  shows "\<exists>recs. csv_read (file_content (res_world (process_entries L es w)) CSV_OUTPUT) =
                   Some (with_header rows recs) \<and>
           map hd recs = take (length recs) (map entry_name (filter (has_text L) es)) \<and>
           (\<not> isl (process_entries L es w) \<longrightarrow> length recs = length (filter (has_text L) es)) \<and>
           (\<forall>r \<in> set recs. length r = 7)"
  using assms
proof (induction es w arbitrary: rows rule: process_entries_induct [where L=L])
  case (Nil w)
  then show ?case by (intro exI [of _ "[]"]) (simp add: with_header_def)
next
  case (Skip e es w)
  then show ?case by (simp add: has_text_def)
next
  case (File e es w tx w2 result w3)
  note ew = entry_worlds [OF File.hyps(2,3)]
  from File.hyps(1-3) show ?case
  proof (cases rule: process_entry_outcomes [where es=es])
    case skip
    have "csv_read (file_content (emit (SkippedNoText (entry_name e)) w2) CSV_OUTPUT) = Some rows"
      using ew File.prems by (simp add: file_content_def)
    with skip show ?thesis using File.IH by simp
  next
    case (abort exc)
    then show ?thesis using File.prems ew
      by (intro exI [of _ "[]"]) (simp add: file_content_def with_header_def)
  next
    case (save data)
    let ?rows4 = "(if rows = [] then [CSV_HEADER] else rows) @ [csv_record data]"
    have "csv_read (file_content w3 CSV_OUTPUT) = Some rows"
      using ew File.prems by (simp add: file_content_def)
    then have "csv_read (file_content (save_to_csv CSV_OUTPUT data w3) CSV_OUTPUT) = Some ?rows4"
      by (rule csv_read_save)
    from File.IH [OF this] obtain recs where
      recs: "csv_read (file_content (res_world (process_entries L es (save_to_csv CSV_OUTPUT data w3)))
               CSV_OUTPUT) = Some (with_header ?rows4 recs)"
        "map hd recs = take (length recs) (map entry_name (filter (has_text L) es))"
        "\<not> isl (process_entries L es (save_to_csv CSV_OUTPUT data w3)) \<longrightarrow>
           length recs = length (filter (has_text L) es)"
        "\<forall>r \<in> set recs. length r = 7"
      by blast
    show ?thesis using recs save
      by (intro exI [of _ "csv_record data # recs"]) (auto simp: with_header_def)
  qed
qed

lemma process_entries_rows:
  assumes "process_entries L es w = Inr w'"
    and "csv_read (file_content w CSV_OUTPUT) = Some rows"
  shows "\<exists>recs. csv_read (file_content w' CSV_OUTPUT) = Some (with_header rows recs) \<and>
           map hd recs = map entry_name (filter (has_text L) es) \<and> (\<forall>r \<in> set recs. length r = 7)"
  using process_entries_rows_gen [OF assms(2), of L es] assms(1) by auto

text \<open>
  Whatever the outcome, the requests sent are those of a prefix of the files with text, in
  order; when the loop completes the prefix is all of them.
\<close>

lemma process_entries_sent_gen:
  "\<exists>k. sent (res_world (process_entries L es w)) =
         sent w @ take k (map (\<lambda>e. openrouter_request (api_key (client L)) (build_prompt (entry_text L e)))
                             (filter (has_text L) es)) \<and>
       (\<not> isl (process_entries L es w) \<longrightarrow> k = length (filter (has_text L) es))"
proof (induction es w rule: process_entries_induct [where L=L])
  case (Nil w)
  then show ?case by simp
next
  case (Skip e es w)
  then show ?case by (simp add: has_text_def)
next
  case (File e es w tx w2 result w3)
  note ew = entry_worlds [OF File.hyps(2,3)]
  from File.hyps(1-3) show ?case
  proof (cases rule: process_entry_outcomes [where es=es])
    case skip
    then show ?thesis using File.IH [of "emit (SkippedNoText (entry_name e)) w2"] ew by simp
  next
    case (abort exc)
    then show ?thesis using ew by (intro exI [of _ 1]) simp
  next
    case (save data)
    obtain k where "sent (res_world (process_entries L es (save_to_csv CSV_OUTPUT data w3))) =
        sent (save_to_csv CSV_OUTPUT data w3) @
          take k (map (\<lambda>e. openrouter_request (api_key (client L)) (build_prompt (entry_text L e)))
                    (filter (has_text L) es)) \<and>
        (\<not> isl (process_entries L es (save_to_csv CSV_OUTPUT data w3)) \<longrightarrow> k = length (filter (has_text L) es))"
      using File.IH by blast
    then show ?thesis using save ew by (intro exI [of _ "Suc k"]) simp
  qed
qed

lemma process_entries_sent:
  "process_entries L es w = Inr w' \<Longrightarrow>
   sent w' = sent w @ map (\<lambda>e. openrouter_request (api_key (client L)) (build_prompt (entry_text L e)))
                        (filter (has_text L) es)"
  using process_entries_sent_gen [of L es w] by auto

lemma process_entries_folder: "folder (res_world (process_entries L es w)) = folder w"
proof (induction es w rule: process_entries_induct [where L=L])
  case (File e es w tx w2 result w3)
  note ew = entry_worlds [OF File.hyps(2,3)]
  from File.hyps(1-3) show ?case
    by (cases rule: process_entry_outcomes [where es=es]) (use File.IH ew in simp_all)
qed simp_all

subsection \<open>The three cases of a run\<close>

lemma run_Missing: "folder w = Missing \<Longrightarrow> run L w = Inr (w\<lparr>folder := Dir []\<rparr>)"
  by (simp add: run_def os_makedirs_def os_listdir_def)

lemma run_NotADir: "folder w = NotADir \<Longrightarrow> run L w = Inl (FileExistsError FOLDER_PATH, w)"
  by (simp add: run_def os_makedirs_def)

lemma run_Dir: "folder w = Dir es \<Longrightarrow> run L w = process_entries L es w"
  by (simp add: run_def os_makedirs_def os_listdir_def)

text \<open>
  The only exception the loop lets through is the TypeError of the item assignment, so with
  a parser that only produces objects it always completes.
\<close>

lemma process_entries_completes:
  assumes "\<forall>s v. json_loads (client L) s = Inr v \<longrightarrow> (\<exists>ps. v = PDict ps)"
  shows "\<exists>w'. process_entries L es w = Inr w'"
proof (induction es w rule: process_entries_induct [where L=L])
  case (File e es w tx w2 result w3)
  from ask_dict [OF assms, of "build_prompt tx" w2] File.hyps(3) obtain ps where "result = PDict ps"
    by auto
  then show ?case using process_entry_file_cases [OF File.hyps, where es=es] File.IH by simp
qed simp_all

text \<open>
  With a service that never answers with status 200 every answer is the empty dict, so the
  loop completes and each file with text gets the row of a dict holding only its File key.
\<close>

lemma csv_record_name_only: "csv_record [(''File'', PStr n)] = n # replicate 6 []"
  by (simp add: csv_record_def CSV_KEYS_def py_dict_get_def numeral_eq_Suc)

lemma process_entries_down:
  assumes down: "\<forall>n r resp. http_post (client L) n r = Inr resp \<longrightarrow> status_code resp \<noteq> 200"
  shows "csv_read (file_content w CSV_OUTPUT) = Some rows \<Longrightarrow>
    \<exists>w'. process_entries L es w = Inr w' \<and>
      csv_read (file_content w' CSV_OUTPUT) =
        Some (with_header rows (map (\<lambda>e. entry_name e # replicate 6 []) (filter (has_text L) es)))"
proof (induction es w arbitrary: rows rule: process_entries_induct [where L=L])
  case (Nil w)
  then show ?case by (simp add: with_header_def)
next
  case (Skip e es w)
  then show ?case by (simp add: has_text_def)
next
  case (File e es w tx w2 result w3)
  note ew = entry_worlds [OF File.hyps(2,3)]
  note pe = process_entry_file_cases [OF File.hyps(1-3), where es=es]
  show ?case
  proof (cases "tx = []")
    case True
    have "csv_read (file_content (emit (SkippedNoText (entry_name e)) w2) CSV_OUTPUT) = Some rows"
      using ew File.prems by (simp add: file_content_def)
    with True show ?thesis using File.IH pe ew(1) by (simp add: has_text_def)
  next
    case False
    have "result = PDict []" using ask_down [of "client L" w2 "build_prompt tx"] down File.hyps(3) by auto
    then have set: "py_setitem_str result ''File'' (PStr (entry_name e)) = Inr [(''File'', PStr (entry_name e))]"
      by simp
    have "csv_read (file_content w3 CSV_OUTPUT) = Some rows" using ew File.prems by (simp add: file_content_def)
    then have "csv_read (file_content (save_to_csv CSV_OUTPUT [(''File'', PStr (entry_name e))] w3) CSV_OUTPUT) =
        Some ((if rows = [] then [CSV_HEADER] else rows) @ [entry_name e # replicate 6 []])"
      by (simp add: csv_read_save csv_record_name_only)
    from File.IH [OF this] show ?thesis
      using False pe set ew(1) File.hyps(1) by (auto simp: has_text_def with_header_def)
  qed
qed

subsection \<open>Whole runs\<close>

text \<open>
  C1. A run that completes leaves the CSV file reading back as the rows it held before
  (with the header row first if it was empty and a row was added), followed by one row of
  seven columns per regular file of the folder whose OCR text is not empty, in listing
  order, whose File column is that file's name. Files with no text and non-files add no
  row.
\<close>

theorem run_csv_rows:
  assumes "run L w = Inr w'"
    and "csv_read (file_content w CSV_OUTPUT) = Some rows"
  shows "\<exists>recs. csv_read (file_content w' CSV_OUTPUT) = Some (with_header rows recs) \<and>
           map hd recs = map entry_name (filter (has_text L) (listing w)) \<and>
           (\<forall>r \<in> set recs. length r = 7)"
proof (cases "folder w")
  case Missing
  with assms show ?thesis
    by (intro exI [of _ "[]"]) (auto simp: run_Missing listing_def file_content_def with_header_def)
next
  case NotADir
  with assms show ?thesis by (simp add: run_NotADir)
next
  case (Dir es)
  with assms show ?thesis by (simp add: run_Dir listing_def process_entries_rows)
qed

text \<open>
  C9. A run that completes sends exactly one request per regular file with non-empty OCR
  text, in listing order, each carrying the prompt built from that file's text; a file
  whose text is empty costs no request.
\<close>

theorem run_requests:
  assumes "run L w = Inr w'"
  shows "sent w' = sent w @ map (\<lambda>e. openrouter_request (api_key (client L)) (build_prompt (entry_text L e)))
                                (filter (has_text L) (listing w))"
proof (cases "folder w")
  case Missing
  with assms show ?thesis by (auto simp: run_Missing listing_def)
next
  case NotADir
  with assms show ?thesis by (simp add: run_NotADir)
next
  case (Dir es)
  with assms show ?thesis by (simp add: run_Dir listing_def process_entries_sent)
qed

text \<open>
  C3. If the model's answer parses as JSON that is not an object (a list, a string, a
  number, null), \<^verbatim>\<open>result["File"] = filename\<close> raises TypeError outside any
  \<^verbatim>\<open>try\<close>: the run stops there, the file gets no row and the remaining entries are
  never processed.
\<close>

theorem process_entries_non_dict:
  assumes "entry_is_file e"
    and "extract_text_from_file (ocr L) (os_path_join FOLDER_PATH (entry_name e))
           (emit (Processing (entry_name e)) w) = (tx, w2)"
    and "tx \<noteq> []"
    and "ask_openrouter (client L) (build_prompt tx) w2 = (result, w3)"
    and "\<forall>ps. result \<noteq> PDict ps"
  shows "process_entries L (e # es) w = Inl (TypeError, w3)"
proof -
  from assms(5) have "py_setitem_str result ''File'' (PStr (entry_name e)) = Inl TypeError"
    by (cases result) auto
  with assms show ?thesis by (simp add: process_entry_file_cases [OF assms(1,2,4)])
qed

text \<open>
  C4. A run ends normally whenever the input path is not a plain file and the JSON parser
  only ever produces objects: then no answer makes \<^verbatim>\<open>result["File"] = filename\<close> raise,
  and every other exception is caught inside the loop.
\<close>

theorem run_completes:
  assumes "\<forall>s v. json_loads (client L) s = Inr v \<longrightarrow> (\<exists>ps. v = PDict ps)"
    and "folder w \<noteq> NotADir"
  shows "\<exists>w'. run L w = Inr w'"
proof (cases "folder w")
  case (Dir es)
  then show ?thesis using process_entries_completes [OF assms(1)] by (simp add: run_Dir)
qed (use assms(2) in \<open>simp_all add: run_Missing\<close>)

text \<open>
  C10. Whether a run completes or stops at an exception, it sends at most one request per
  regular file with OCR text in the folder listing.
\<close>

theorem run_request_bound:
  "length (sent (res_world (run L w))) \<le> length (sent w) + length (filter (has_text L) (listing w))"
proof (cases "folder w")
  case (Dir es)
  obtain k where "sent (res_world (process_entries L es w)) =
      sent w @ take k (map (\<lambda>e. openrouter_request (api_key (client L)) (build_prompt (entry_text L e)))
                          (filter (has_text L) es))"
    using process_entries_sent_gen by blast
  then show ?thesis using Dir by (simp add: run_Dir listing_def)
qed (simp_all add: run_Missing run_NotADir)

text \<open>
  C31. A service that never answers with status 200 (unavailable, rate-limited, rejecting
  the credential) does not stop a run: the run completes, and every regular file with OCR
  text still gets a row, holding its name in the File column and six empty fields, since
  the client returns \<^verbatim>\<open>{}\<close> and line 103 adds the File key to it.
\<close>

theorem run_service_down_rows:
  assumes "\<forall>n r resp. http_post (client L) n r = Inr resp \<longrightarrow> status_code resp \<noteq> 200"
    and "folder w \<noteq> NotADir"
    and "csv_read (file_content w CSV_OUTPUT) = Some rows"
  shows "\<exists>w'. run L w = Inr w' \<and>
           csv_read (file_content w' CSV_OUTPUT) =
             Some (with_header rows (map (\<lambda>e. entry_name e # replicate 6 []) (filter (has_text L) (listing w))))"
proof (cases "folder w")
  case Missing
  then show ?thesis using assms(3) by (simp add: run_Missing listing_def file_content_def with_header_def)
next
  case (Dir es)
  then show ?thesis using process_entries_down [OF assms(1) assms(3)] by (simp add: run_Dir listing_def)
qed (use assms(2) in simp)

end
