(* ===== verification/Sessions.thy ===== *)
theory Sessions
  imports Orchestrator
begin

text \<open>
  Successive invocations of the script (\<^verbatim>\<open>python local_receipt_parser_dual_ai.py\<close>,
  which calls \<^verbatim>\<open>run()\<close>, lines 106-107 of
  \<^verbatim>\<open>src/receiptscanner/local_receipt_parser_dual_ai.py\<close>) on one machine. The CSV output
  file persists between them and the user may change the input folder in between. A world
  is reachable when it arises from a fresh machine by such steps; a run stopped by an
  uncaught exception leaves the world it had reached (rows already appended stay). The
  invariant is that the output always reads back as a table of seven-column rows headed
  by the header; running twice on the same folder appends every file's row twice.
\<close>

text \<open>The guard of lines 106-107: the script runs only when executed, not when imported.\<close>

definition script_main :: "string \<Rightarrow> 'img libs \<Rightarrow> world \<Rightarrow> (py_exc \<times> world) + world" where
  "script_main name L w = (if name = ''__main__'' then run L w else Inr w)"

inductive reach :: "'img libs \<Rightarrow> world \<Rightarrow> bool" for L :: "'img libs" where
  fresh: "reach L (start_world f)"
| invoke: "reach L w \<Longrightarrow> script_main ''__main__'' L w = r \<Longrightarrow> reach L (res_world r)"
| edit_folder: "reach L w \<Longrightarrow> reach L (w\<lparr>folder := f\<rparr>)"

lemma script_main_run [simp]: "script_main ''__main__'' L w = run L w"
  by (simp add: script_main_def)

lemma script_main_import: "name \<noteq> ''__main__'' \<Longrightarrow> script_main name L w = Inr w"
  by (simp add: script_main_def)

text \<open>Any run, completed or stopped, only appends seven-column rows to the table.\<close>

lemma run_rows_gen:
  assumes "csv_read (file_content w CSV_OUTPUT) = Some rows"
  shows "\<exists>recs. csv_read (file_content (res_world (run L w)) CSV_OUTPUT) = Some (with_header rows recs) \<and>
           (\<forall>r \<in> set recs. length r = 7)"
proof (cases "folder w")
  case Missing
  then show ?thesis using assms
    by (intro exI [of _ "[]"]) (simp add: run_Missing file_content_def with_header_def)
next
  case NotADir
  then show ?thesis using assms
    by (intro exI [of _ "[]"]) (simp add: run_NotADir with_header_def)
next
  case (Dir es)
  then show ?thesis using process_entries_rows_gen [OF assms, of L es] by (auto simp: run_Dir)
qed

lemma with_header_append: "with_header (with_header [] r1) r2 = with_header [] (r1 @ r2)"
  by (simp add: with_header_def)

lemma header_table:
  assumes "rows = [] \<or> hd rows = CSV_HEADER" and "\<forall>r \<in> set rows. length r = 7"
    and "\<forall>r \<in> set recs. length r = 7"
  shows "with_header rows recs = [] \<or> hd (with_header rows recs) = CSV_HEADER"
    and "\<forall>r \<in> set (with_header rows recs). length r = 7"
  using assms by (auto simp: with_header_def CSV_HEADER_def)

text \<open>
  C2. In every reachable world the output file reads back as a CSV table whose first row
  is the header and all of whose rows have the seven columns, however many invocations
  completed or stopped and however the input folder was changed in between.
\<close>

theorem reach_output_table:
  assumes "reach L w"
  shows "\<exists>rows. csv_read (file_content w CSV_OUTPUT) = Some rows \<and>
           (rows = [] \<or> hd rows = CSV_HEADER) \<and> (\<forall>r \<in> set rows. length r = 7)"
  using assms
proof (induction rule: reach.induct)
  case (fresh f)
  then show ?case by (simp add: start_world_def file_content_def csv_read_def)
next
  case (invoke w r)
  then obtain rows where rows: "csv_read (file_content w CSV_OUTPUT) = Some rows"
    "rows = [] \<or> hd rows = CSV_HEADER" "\<forall>r \<in> set rows. length r = 7" by blast
  obtain recs where "csv_read (file_content (res_world (run L w)) CSV_OUTPUT) = Some (with_header rows recs)"
    "\<forall>r \<in> set recs. length r = 7"
    using run_rows_gen [OF rows(1)] by blast
  then show ?case using invoke.hyps(2) header_table [OF rows(2,3)] by auto
next
  case (edit_folder w f)
  then show ?case by (simp add: file_content_def)
qed

text \<open>
  C8. Running the script twice on an unchanged folder, starting without an output file,
  appends a second row for every file with text: the File column lists the files with text
  twice over. The code never checks whether a file was processed before.
\<close>

theorem rerun_duplicates:
  assumes "folder w = Dir es" and "file_content w CSV_OUTPUT = []"
    and "run L w = Inr w1" and "run L w1 = Inr w2"
  shows "\<exists>recs1 recs2. csv_read (file_content w2 CSV_OUTPUT) = Some (with_header [] (recs1 @ recs2)) \<and>
           map hd recs1 = map entry_name (filter (has_text L) es) \<and>
           map hd recs2 = map entry_name (filter (has_text L) es)"
proof -
  have pe1: "process_entries L es w = Inr w1" using assms(1,3) by (simp add: run_Dir)
  have "folder w1 = Dir es" using process_entries_folder [of L es w] pe1 assms(1) by simp
  then have pe2: "process_entries L es w1 = Inr w2" using assms(4) by (simp add: run_Dir)
  have "csv_read (file_content w CSV_OUTPUT) = Some []" using assms(2) by (simp add: csv_read_def)
  from process_entries_rows [OF pe1 this] obtain recs1 where
    r1: "csv_read (file_content w1 CSV_OUTPUT) = Some (with_header [] recs1)"
      "map hd recs1 = map entry_name (filter (has_text L) es)" by blast
  from process_entries_rows [OF pe2 r1(1)] obtain recs2 where
    "csv_read (file_content w2 CSV_OUTPUT) = Some (with_header (with_header [] recs1) recs2)"
    "map hd recs2 = map entry_name (filter (has_text L) es)" by blast
  then show ?thesis using r1(2) by (auto simp: with_header_append)
qed

end
