(* ===== verification/Console.thy ===== *)
theory Console
  imports Orchestrator
begin

text \<open>
  What the program prints (lines 43, 61, 68, 95 and 98 of
  \<^verbatim>\<open>src/receiptscanner/local_receipt_parser_dual_ai.py\<close>). The model records each
  \<^verbatim>\<open>print\<close> as an event of the world's console; here each event becomes the line
  \<^verbatim>\<open>print\<close> writes: the f-string or the arguments separated by spaces, then a newline.
  The text \<^verbatim>\<open>str(e)\<close> of an exception is CPython's or the library's message and is a
  parameter \<open>str_exc\<close>. The status code is printed by \<^verbatim>\<open>str\<close> of an int.
\<close>

definition print_line :: "(py_exc \<Rightarrow> string) \<Rightarrow> log_event \<Rightarrow> string" where
  "print_line str_exc ev =
     (case ev of
        Processing f \<Rightarrow> ''Processing: '' @ f
      | SkippedNoText f \<Rightarrow> ''Skipped (no text): '' @ f
      | OcrError p e \<Rightarrow> ''OCR error on '' @ p @ '': '' @ str_exc e
      | ApiStatusError c t \<Rightarrow> ''[OpenRouter Gemini] API error: '' @ py_str_int c @ '' '' @ t
      | ApiError e \<Rightarrow> ''[OpenRouter Gemini] Error: '' @ str_exc e) @ [LF]"

definition stdout :: "(py_exc \<Rightarrow> string) \<Rightarrow> world \<Rightarrow> string" where
  "stdout str_exc w = concat (map (print_line str_exc) (console w))"

text \<open>The names announced by \<^verbatim>\<open>Processing:\<close> lines, in order.\<close>

fun processed :: "log_event list \<Rightarrow> string list" where
  "processed [] = []"
| "processed (Processing f # evs) = f # processed evs"
| "processed (_ # evs) = processed evs"

text \<open>The names announced by \<^verbatim>\<open>Skipped (no text):\<close> lines, in order.\<close>

fun skipped :: "log_event list \<Rightarrow> string list" where
  "skipped [] = []"
| "skipped (SkippedNoText f # evs) = f # skipped evs"
| "skipped (_ # evs) = skipped evs"

lemma processed_append [simp]: "processed (xs @ ys) = processed xs @ processed ys"
  by (induction xs rule: processed.induct) simp_all

lemma extract_processed:
  "processed (console (snd (extract_text_from_file lib p w))) = processed (console w)"
  by (simp add: extract_text_from_file_def split: sum.splits)

lemma ask_processed:
  "processed (console (snd (ask_openrouter lib prompt w))) = processed (console w)"
  by (simp add: ask_openrouter_def Let_def split: sum.splits)

lemma skipped_append [simp]: "skipped (xs @ ys) = skipped xs @ skipped ys"
  by (induction xs rule: skipped.induct) simp_all

lemma entry_skipped:
  assumes "extract_text_from_file (ocr L) (os_path_join FOLDER_PATH (entry_name e))
             (emit (Processing (entry_name e)) w) = (tx, w2)"
    and "ask_openrouter (client L) (build_prompt tx) w2 = (result, w3)"
  shows "skipped (console w2) = skipped (console w)" and "skipped (console w3) = skipped (console w)"
proof -
  have "skipped (console (snd (extract_text_from_file (ocr L) (os_path_join FOLDER_PATH (entry_name e))
      (emit (Processing (entry_name e)) w)))) = skipped (console w)"
    by (simp add: extract_text_from_file_def split: sum.splits)
  moreover have "skipped (console (snd (ask_openrouter (client L) (build_prompt tx) w2))) = skipped (console w2)"
    by (simp add: ask_openrouter_def Let_def split: sum.splits)
  ultimately show "skipped (console w2) = skipped (console w)" "skipped (console w3) = skipped (console w)"
    using assms by simp_all
qed

lemma entry_processed:
  assumes "extract_text_from_file (ocr L) (os_path_join FOLDER_PATH (entry_name e))
             (emit (Processing (entry_name e)) w) = (tx, w2)"
    and "ask_openrouter (client L) (build_prompt tx) w2 = (result, w3)"
  shows "processed (console w2) = processed (console w) @ [entry_name e]"
    and "processed (console w3) = processed (console w) @ [entry_name e]"
  using extract_processed [of "ocr L" "os_path_join FOLDER_PATH (entry_name e)"
      "emit (Processing (entry_name e)) w"]
    ask_processed [of "client L" "build_prompt tx" w2] assms
  by simp_all

text \<open>
  C12. A run that completes announces every regular file of the listing exactly once, in
  listing order, with a \<^verbatim>\<open>Processing:\<close> line, whether the file is then skipped, fails in
  OCR or in the API, or gets its row; entries that are not files are not announced.
\<close>

theorem run_reports_files:
  assumes "run L w = Inr w'"
  shows "processed (console w') = processed (console w) @ map entry_name (filter entry_is_file (listing w))"
proof (cases "folder w")
  case Missing
  then show ?thesis using assms by (auto simp: run_Missing listing_def)
next
  case NotADir
  then show ?thesis using assms by (simp add: run_NotADir)
next
  case (Dir es)
  have "\<forall>w'. process_entries L es w = Inr w' \<longrightarrow>
          processed (console w') = processed (console w) @ map entry_name (filter entry_is_file es)"
  proof (induction es w rule: process_entries_induct [where L=L])
    case (File e es w tx w2 result w3)
    note ep = entry_processed [OF File.hyps(2,3)]
    from File.hyps(1-3) show ?case
    proof (cases rule: process_entry_outcomes [where es=es])
      case skip
      show ?thesis unfolding skip(2)
        using File.IH [of "emit (SkippedNoText (entry_name e)) w2"] ep File.hyps(1) by simp
    next
      case (abort exc)
      show ?thesis unfolding abort(2) by simp
    next
      case (save data)
      show ?thesis unfolding save(3)
        using File.IH [of "save_to_csv CSV_OUTPUT data w3"] ep File.hyps(1) by simp
    qed
  qed simp_all
  then show ?thesis using assms Dir by (simp add: run_Dir listing_def)
qed

text \<open>
  C32. A run that completes prints the notice \<^verbatim>\<open>Skipped (no text):\<close> exactly for the
  regular files of the listing whose OCR text is empty, once each and in listing order;
  a file that gets a row, or whose API call fails, is never announced as skipped.
\<close>

theorem run_reports_skips:
  assumes "run L w = Inr w'"
  shows "skipped (console w') =
           skipped (console w) @ map entry_name (filter (\<lambda>e. entry_is_file e \<and> \<not> has_text L e) (listing w))"
proof (cases "folder w")
  case Missing
  then show ?thesis using assms by (auto simp: run_Missing listing_def)
next
  case NotADir
  then show ?thesis using assms by (simp add: run_NotADir)
next
  case (Dir es)
  have "\<forall>w'. process_entries L es w = Inr w' \<longrightarrow>
          skipped (console w') =
            skipped (console w) @ map entry_name (filter (\<lambda>e. entry_is_file e \<and> \<not> has_text L e) es)"
  proof (induction es w rule: process_entries_induct [where L=L])
    case (File e es w tx w2 result w3)
    note sk = entry_skipped [OF File.hyps(2,3)]
    from File.hyps(1-3) show ?case
    proof (cases rule: process_entry_outcomes [where es=es])
      case skip
      show ?thesis unfolding skip(2)
        using File.IH [of "emit (SkippedNoText (entry_name e)) w2"] sk skip(1) File.hyps(1) by simp
    next
      case (abort exc)
      show ?thesis unfolding abort(2) by simp
    next
      case (save data)
      show ?thesis unfolding save(3)
        using File.IH [of "save_to_csv CSV_OUTPUT data w3"] sk save(1) File.hyps(1) by simp
    qed
  qed simp_all
  then show ?thesis using assms Dir by (simp add: run_Dir listing_def)
qed

end
