(* ===== verification/Io_Trace.thy ===== *)
theory Io_Trace
  imports Orchestrator
begin

text \<open>
  The order of the program's effects. The spec (section 5) says each file is fully processed
  (OCR, the network call, the CSV write) before the next begins and that a row is written
  in one write. Over the world's trace \<open>io\<close> this reads: the trace of a completed run is
  the concatenation of one segment per regular file of the listing, in listing order. A
  segment opens with the file's \<^verbatim>\<open>Processing:\<close> line. For a file with OCR text it then has
  only notes (a printed OCR error), the file's request, only notes (a printed API error),
  and one or more appends to the CSV output (the header, then the row), with nothing after
  them. For a file without text it has only notes (the OCR error and the skip notice).
\<close>

definition entry_segment :: "'img libs \<Rightarrow> dir_entry \<Rightarrow> io_event list \<Rightarrow> bool" where
  "entry_segment L e seg \<longleftrightarrow>
     (case seg of
        [] \<Rightarrow> False
      | ev # rest \<Rightarrow>
          ev = Printed (Processing (entry_name e)) \<and>
          (if has_text L e then
             (case dropWhile is_note rest of
                Posted r # rest2 \<Rightarrow>
                  r = openrouter_request (api_key (client L)) (build_prompt (entry_text L e)) \<and>
                  dropWhile is_note rest2 \<noteq> [] \<and>
                  list_all (is_append_to CSV_OUTPUT) (dropWhile is_note rest2)
              | _ \<Rightarrow> False)
           else list_all is_note rest))"

text \<open>
  The part of the trace of the file at which a run stops: its \<^verbatim>\<open>Processing:\<close> line,
  notes, its request, and then only notes; nothing is written to the CSV for it.
\<close>

definition failed_segment :: "'img libs \<Rightarrow> dir_entry \<Rightarrow> io_event list \<Rightarrow> bool" where
  "failed_segment L e seg \<longleftrightarrow>
     (case seg of
        [] \<Rightarrow> False
      | ev # rest \<Rightarrow>
          ev = Printed (Processing (entry_name e)) \<and> has_text L e \<and>
          (case dropWhile is_note rest of
             Posted r # rest2 \<Rightarrow>
               r = openrouter_request (api_key (client L)) (build_prompt (entry_text L e)) \<and>
               list_all is_note rest2
           | _ \<Rightarrow> False))"

text \<open>
  The trace of the loop over the regular files \<open>fs\<close>, from the trace \<open>t0\<close>: complete
  segments when it completes; when it stops, TypeError, complete segments for the files
  before the failing one, and the failing file's partial segment.
\<close>

definition trace_shape ::
  "'img libs \<Rightarrow> dir_entry list \<Rightarrow> io_event list \<Rightarrow> (py_exc \<times> world) + world \<Rightarrow> bool" where
  "trace_shape L fs t0 r \<longleftrightarrow>
     (case r of
        Inr w' \<Rightarrow> (\<exists>segs. io w' = t0 @ concat segs \<and> list_all2 (entry_segment L) fs segs)
      | Inl (exc, w') \<Rightarrow> exc = TypeError \<and>
          (\<exists>pre e post segs seg. fs = pre @ e # post \<and> io w' = t0 @ concat segs @ seg \<and>
             list_all2 (entry_segment L) pre segs \<and> failed_segment L e seg))"

lemma dropWhile_notes_append:
  "list_all is_note ns \<Longrightarrow> dropWhile is_note (ns @ xs) = dropWhile is_note xs"
  by (induction ns) auto

lemma list_all_appended [simp]: "list_all (is_append_to p) (map (Appended p) cs)"
  by (induction cs) auto

lemma entry_segment_skip:
  "\<not> has_text L e \<Longrightarrow> list_all is_note ns \<Longrightarrow>
   entry_segment L e (Printed (Processing (entry_name e)) # ns)"
  by (simp add: entry_segment_def)

lemma entry_segment_saved:
  assumes "has_text L e" and "list_all is_note ns1" and "list_all is_note ns2" and "chunks \<noteq> []"
  shows "entry_segment L e (Printed (Processing (entry_name e)) # ns1 @
           Posted (openrouter_request (api_key (client L)) (build_prompt (entry_text L e))) # ns2 @
           map (Appended CSV_OUTPUT) chunks)"
proof -
  have "dropWhile is_note (map (Appended CSV_OUTPUT) chunks) = map (Appended CSV_OUTPUT) chunks"
    using assms(4) by (cases chunks) simp_all
  then show ?thesis
    using assms by (simp add: entry_segment_def dropWhile_notes_append del: dropWhile_eq_Nil_conv)
qed

lemma trace_shape_cons:
  assumes "entry_segment L e seg" and "trace_shape L fs (t0 @ seg) r"
  shows "trace_shape L (e # fs) t0 r"
proof (cases r)
  case (Inl a)
  obtain exc w' where a: "a = (exc, w')" by (cases a)
  from assms(2) Inl a obtain pre e' post segs seg' where
    f: "exc = TypeError" "fs = pre @ e' # post" "io w' = (t0 @ seg) @ concat segs @ seg'"
      "list_all2 (entry_segment L) pre segs" "failed_segment L e' seg'"
    by (auto simp: trace_shape_def)
  have "exc = TypeError \<and> e # fs = (e # pre) @ e' # post \<and> io w' = t0 @ concat (seg # segs) @ seg' \<and>
      list_all2 (entry_segment L) (e # pre) (seg # segs) \<and> failed_segment L e' seg'"
    using f assms(1) by simp
  then show ?thesis unfolding Inl a trace_shape_def sum.case prod.case
    by (intro conjI exI [of _ "e # pre"] exI [of _ e'] exI [of _ post] exI [of _ "seg # segs"] exI [of _ seg'])
      simp_all
next
  case (Inr w')
  from assms(2) Inr obtain segs where
    "io w' = (t0 @ seg) @ concat segs" "list_all2 (entry_segment L) fs segs"
    by (auto simp: trace_shape_def)
  then show ?thesis using assms(1) unfolding Inr trace_shape_def sum.case
    by (intro exI [of _ "seg # segs"]) simp
qed

text \<open>The loop's trace has that shape, whether it completes or stops.\<close>

lemma process_entries_trace:
  "trace_shape L (filter entry_is_file es) (io w) (process_entries L es w)"
proof (induction es w rule: process_entries_induct [where L=L])
  case (Nil w)
  then show ?case by (simp add: trace_shape_def)
next
  case (Skip e es w)
  then show ?case by simp
next
  case (File e es w tx w2 result w3)
  note ew = entry_worlds [OF File.hyps(2,3)]
  obtain ns1 where ns1: "io w2 = io w @ Printed (Processing (entry_name e)) # ns1" "list_all is_note ns1"
    using extract_io [of "ocr L" "os_path_join FOLDER_PATH (entry_name e)" "emit (Processing (entry_name e)) w"]
      File.hyps(2) by auto
  obtain ns2 where ns2: "io w3 = io w2 @ Posted (openrouter_request (api_key (client L)) (build_prompt tx)) # ns2"
      "list_all is_note ns2"
    using ask_io [of "client L" "build_prompt tx" w2] File.hyps(3) by auto
  from File.hyps(1-3) show ?case
  proof (cases rule: process_entry_outcomes [where es=es])
    case skip
    let ?seg = "Printed (Processing (entry_name e)) # ns1 @ [Printed (SkippedNoText (entry_name e))]"
    have "entry_segment L e ?seg" using skip(1) ns1(2) by (intro entry_segment_skip) simp_all
    moreover have "trace_shape L (filter entry_is_file es) (io w @ ?seg)
        (process_entries L es (emit (SkippedNoText (entry_name e)) w2))"
      using File.IH [of "emit (SkippedNoText (entry_name e)) w2"] ns1(1) by simp
    ultimately show ?thesis unfolding skip(2) using File.hyps(1) by (simp add: trace_shape_cons)
  next
    case (abort exc)
    let ?seg = "Printed (Processing (entry_name e)) # ns1 @
        Posted (openrouter_request (api_key (client L)) (build_prompt (entry_text L e))) # ns2"
    have "failed_segment L e ?seg"
      using abort(1) ns1(2) ns2(2) by (simp add: failed_segment_def dropWhile_notes_append)
    then show ?thesis unfolding abort(2) using abort(3) ns1(1) ns2(1) ew(1) File.hyps(1)
      by (simp add: trace_shape_def) (intro exI [of _ "[]"] exI [of _ e]; simp)
  next
    case (save data)
    let ?chunks = "(if file_content w3 CSV_OUTPUT = [] then [csv_writerow CSV_HEADER] else []) @
                     [csv_writerow (csv_record data)]"
    let ?seg = "Printed (Processing (entry_name e)) # ns1 @
       Posted (openrouter_request (api_key (client L)) (build_prompt (entry_text L e))) # ns2 @
       map (Appended CSV_OUTPUT) ?chunks"
    have "entry_segment L e ?seg" using save(1) ns1(2) ns2(2) by (intro entry_segment_saved) simp_all
    moreover have "trace_shape L (filter entry_is_file es) (io w @ ?seg)
        (process_entries L es (save_to_csv CSV_OUTPUT data w3))"
      using File.IH [of "save_to_csv CSV_OUTPUT data w3"] ns1(1) ns2(1) ew(1) by (simp add: save_to_csv_effects)
    ultimately show ?thesis unfolding save(3) using File.hyps(1) by (simp add: trace_shape_cons)
  qed
qed

text \<open>
  C26. The effects of a completed run come file by file, in listing order, and never
  interleave: each regular file's segment starts with its \<^verbatim>\<open>Processing:\<close> line; a file with
  text then has its request and, after it, its rows appended to the CSV output as the last
  effects of the segment, before the next file starts; a file without text only prints.
\<close>

theorem run_trace_segments:
  assumes "run L w = Inr w'"
  shows "\<exists>segs. io w' = io w @ concat segs \<and>
           list_all2 (entry_segment L) (filter entry_is_file (listing w)) segs"
proof (cases "folder w")
  case Missing
  then show ?thesis using assms by (auto simp: run_Missing listing_def)
next
  case NotADir
  then show ?thesis using assms by (simp add: run_NotADir)
next
  case (Dir es)
  then show ?thesis using assms process_entries_trace [of L es w]
    by (simp add: run_Dir listing_def trace_shape_def)
qed

text \<open>
  C29. A run that stops at an exception on an existing folder stops with TypeError at a
  regular file with OCR text: the files before it have their complete segments, and the
  failing file's part of the trace ends after its request with only printed notes; no row is
  written for it and nothing of a later file happens.
\<close>

theorem run_abort_trace:
  assumes "folder w = Dir es" and "run L w = Inl (exc, w')"
  shows "exc = TypeError \<and>
    (\<exists>pre e post segs seg. filter entry_is_file es = pre @ e # post \<and> io w' = io w @ concat segs @ seg \<and>
       list_all2 (entry_segment L) pre segs \<and> failed_segment L e seg)"
  using assms process_entries_trace [of L es w] by (simp add: run_Dir trace_shape_def)

text \<open>
  C30. Only two exceptions ever escape \<^verbatim>\<open>run()\<close>: FileExistsError from
  \<^verbatim>\<open>os.makedirs\<close> when the input path is not a directory (then nothing else has happened),
  and the TypeError of \<^verbatim>\<open>result["File"] = filename\<close>; every other failure is caught.
\<close>

theorem run_exceptions:
  assumes "run L w = Inl (exc, w')"
  shows "(folder w = NotADir \<and> exc = FileExistsError FOLDER_PATH \<and> w' = w) \<or>
         (exc = TypeError \<and> (\<exists>es. folder w = Dir es))"
proof (cases "folder w")
  case (Dir es)
  then show ?thesis using assms process_entries_trace [of L es w] by (simp add: run_Dir trace_shape_def)
qed (use assms in \<open>simp_all add: run_Missing run_NotADir\<close>)

end
