(* ===== verification/Spec2Isabelle.thy ===== *)
theory Spec2Isabelle
  imports Sessions Console Io_Trace
begin

text \<open>
  \<^bold>\<open>A verification library for the receipt parser\<close> of the repository
  marloostudio/medical-booking, the script
  \<^verbatim>\<open>src/receiptscanner/local_receipt_parser_dual_ai.py\<close> (107 lines of Python).

  \<^bold>\<open>The program.\<close> \<^verbatim>\<open>run()\<close> (lines 88-104) creates the folder \<^verbatim>\<open>./assets\<close> if
  it is missing, lists it, and for every regular file prints its name, extracts its text
  by OCR (\<^verbatim>\<open>extract_text_from_file\<close>, lines 31-44: a PDF page by page through
  \<^verbatim>\<open>pdf2image\<close> and \<^verbatim>\<open>pytesseract\<close>, anything else as one image through PIL), skips
  the file when the text is empty, fills the template \<^verbatim>\<open>PROMPT\<close> (lines 14-27) with the
  text, posts it to a chat-completion endpoint (\<^verbatim>\<open>ask_openrouter\<close>, lines 46-69), parses
  the JSON in the answer, stores the file name under \<^verbatim>\<open>"File"\<close> and appends one CSV row
  (\<^verbatim>\<open>save_to_csv\<close>, lines 71-84), writing the header row first when the CSV file is
  empty. The components interact only by passing values down this pipeline and through
  three effects: the console, the requests sent and the CSV file.

  \<^bold>\<open>How it is modelled.\<close> Each theory models one part, in the order of the code:
  \<^item> \<open>Prelude\<close>: exceptions as sum values (\<open>'e + 'a\<close>, \<open>Inl\<close> raised) with their
    bind \<open>bind_exc\<close>, Python's \<^verbatim>\<open>sep.join\<close> (\<open>py_join\<close>), shared list lemmas, and the
    collection \<open>model_defs\<close> of unfoldings used to evaluate concrete runs.
  \<^item> \<open>Py_Str\<close>: the string built-ins the code calls, \<^verbatim>\<open>str.lower\<close> (\<open>py_lower\<close>),
    \<^verbatim>\<open>str.split\<close> (\<open>py_split\<close>), \<^verbatim>\<open>str.strip\<close> (\<open>py_strip\<close>, with \<open>py_isspace\<close>)
    and \<^verbatim>\<open>os.path.join\<close> (\<open>os_path_join\<close>), for code points 0-255.
  \<^item> \<open>Py_Value\<close>: the values \<^verbatim>\<open>json.loads\<close> returns (\<open>pyval\<close>), the exceptions
    (\<open>py_exc\<close>), subscripting \<open>py_getitem\<close>, item assignment \<open>py_setitem_str\<close> and
    \<open>dict_set\<close>, \<^verbatim>\<open>dict.get\<close> (\<open>py_dict_get\<close>), and the text the csv module writes
    for a value (\<open>csv_str\<close>, \<open>py_repr\<close>).
  \<^item> \<open>World\<close>: the effects as an explicit state \<open>world\<close>: printed events
    (\<open>console\<close>), requests sent (\<open>sent\<close>), file contents (\<open>files\<close>), the input
    folder (\<open>folder\<close>) and the trace of all effects in order (\<open>io\<close>), with one operation
    per effect: \<open>emit\<close> for \<^verbatim>\<open>print\<close>, \<open>post\<close> for \<^verbatim>\<open>httpx.post\<close>, \<open>append_file\<close>
    for one \<^verbatim>\<open>writerow\<close> on the file opened for appending.
  \<^item> \<open>Extractor\<close>: \<open>extract_text_from_file\<close> with the libraries as a parameter
    \<open>ocr_lib\<close>; the page loop is \<open>ocr_pages\<close>, the \<^verbatim>\<open>try\<close> block \<open>extract_try\<close>.
  \<^item> \<open>Prompt\<close>: \<^verbatim>\<open>str.format\<close> (\<open>py_format\<close>), the template \<open>PROMPT\<close>, and the
    closed form \<open>build_prompt\<close> of the filled template.
  \<^item> \<open>Client\<close>: \<open>ask_openrouter\<close> with \<^verbatim>\<open>httpx.post\<close> and the JSON parser as a
    parameter \<open>client_lib\<close>; the request \<open>openrouter_request\<close>, the subscript chain
    \<open>response_content\<close>.
  \<^item> \<open>Csv_Writer\<close>: \<open>save_to_csv\<close> with the csv module's quoting (\<open>csv_field\<close>,
    \<open>csv_writerow\<close>), and a CSV reader \<open>csv_read\<close> (a specification, not code) against
    which the output is checked.
  \<^item> \<open>Orchestrator\<close>: \<open>run\<close>, \<open>os_makedirs\<close>, \<open>os_listdir\<close> and the loop
    \<open>process_entries\<close>; the abstract view of a run (\<open>entry_text\<close>, \<open>has_text\<close>,
    \<open>with_header\<close>, \<open>listing\<close>).
  \<^item> \<open>Sessions\<close>: the guard of lines 106-107 (\<open>script_main\<close>) and successive
    invocations of the script as an inductive reachability predicate \<open>reach\<close> (a fresh
    machine, an invocation that completes or stops at an exception, the user editing the
    input folder in between).
  \<^item> \<open>Console\<close>: the line each \<^verbatim>\<open>print\<close> writes (\<open>print_line\<close>), standard output
    (\<open>stdout\<close>) and the names announced by \<^verbatim>\<open>Processing:\<close> and
    \<^verbatim>\<open>Skipped (no text):\<close> lines (\<open>processed\<close>, \<open>skipped\<close>).
  \<^item> \<open>Io_Trace\<close>: the shape of one file's part of the effect trace (\<open>entry_segment\<close>,
    and \<open>failed_segment\<close> for the file at which a run stops), the shape of the loop's
    whole trace for both outcomes (\<open>trace_shape\<close>, proved for \<open>process_entries\<close> by
    its induction rule), and the ordering theorems over completed and stopped runs.
  \<^item> this theory: concrete libraries after the scenarios of the spec (a receipt, a blank
    image, an unavailable service, a model answering with a JSON list), evaluated through
    the whole model, and the witnesses that apply the theorems to them.
  The external libraries (OCR, rasteriser, PIL, httpx, the JSON parser) are parameters
  that return a value or raise; every theorem holds for all of them. The remote model may
  answer each request differently: \<open>http_post\<close> receives the number of earlier requests.
  An exception the code does not catch ends a run as \<open>Inl (exception, world)\<close>.

  \<^bold>\<open>What is proved.\<close> The claims, by id, most important first:
  \<^item> C1 \<open>run_csv_rows\<close> (refinement): after a completed run the CSV file reads back as the
    old rows, the header if the file was empty, and one seven-column row per regular file
    with text, in listing order, named in its File column.
  \<^item> C2 \<open>reach_output_table\<close>: in every world reachable by successive invocations, also
    stopped ones, the output is a table of seven-column rows headed by the header.
  \<^item> C3 \<open>process_entries_non_dict\<close>: a valid JSON answer that is not an object stops the
    whole run with TypeError; C4 \<open>run_completes\<close> (liveness): a parser producing only
    objects and an input path that is not a plain file make every run complete.
  \<^item> C5-C7 (\<open>Csv_Writer\<close>): the writer round-trips through the reader for any field
    contents; \<open>save_to_csv\<close> keeps the file a table headed by the header; from an empty
    file it writes the header once and one row per call.
  \<^item> C8 \<open>rerun_duplicates\<close>: a second run on the same folder appends every row again.
  \<^item> C9 \<open>run_requests\<close>: one request per file with text, none for the others; C10
    \<open>run_request_bound\<close>: never more, also when the run stops early.
  \<^item> C11 \<open>csv_record_columns\<close>: the row lines up with the header as the spec pairs
    columns and fields (Total Amount under Total, and so on), whatever the key order.
  \<^item> C12 \<open>run_reports_files\<close>: one \<^verbatim>\<open>Processing:\<close> line per regular file, in order.
  \<^item> C13-C17 (\<open>Extractor\<close>): the newline after every page agrees with the spec's
    separator once stripped; an OCR failure mid-PDF keeps the earlier pages' text; the
    image branch and its errors; the result is always stripped.
  \<^item> C18 \<open>format_PROMPT\<close>: the template is filled verbatim for every text.
  \<^item> C19-C23 (\<open>Client\<close>): one request per call; \<^verbatim>\<open>{}\<close> on a non-200 status and on
    every malformed answer; the parsed content otherwise; what is returned is \<^verbatim>\<open>{}\<close> or
    the parse of the content of a status-200 answer, never anything else.
  \<^item> C24-C25: the extension test reads the text after the last dot; the subscript chain of
    line 65 succeeds exactly on the expected shape.
  \<^item> C26 \<open>run_trace_segments\<close>: the effects of a completed run come file by file in
    listing order and never interleave; a file's request precedes its CSV rows, which are
    the last effects before the next file (spec section 5).
  \<^item> C27: a PDF the rasteriser cannot open is reported and gives empty text; C28
    \<open>save_to_csv_whole_rows\<close>: every write \<open>save_to_csv\<close> makes is one complete
    seven-field row, the record's row last.
  \<^item> C29 \<open>run_abort_trace\<close>: a run stopped by an exception on an existing folder has the
    complete segments of the files before the failing one, then the failing file's
    \<^verbatim>\<open>Processing:\<close> line, notes, its request and only notes: no row for it, nothing of a
    later file. C30 \<open>run_exceptions\<close>: the only exceptions that escape \<^verbatim>\<open>run()\<close> are
    the FileExistsError of \<^verbatim>\<open>os.makedirs\<close> (nothing else happened) and the TypeError of
    line 103.
  \<^item> C31 \<open>run_service_down_rows\<close>: a service that never answers with status 200 does not
    stop a run, and every file with text still gets a row holding only its name; C32
    \<open>run_reports_skips\<close>: the skip notice is printed exactly for the regular files with
    empty text, in order.

  \<^bold>\<open>Findings.\<close> Modelling shows two places where the code and the spec differ: an OCR
  failure in the middle of a PDF keeps the text of the earlier pages instead of giving
  empty text (C14), and a non-object JSON answer raises an uncaught TypeError at line 103,
  so the remaining files are never processed, where the spec says API failures are
  recovered (C3). Field values that are not strings are written with Python's
  \<^verbatim>\<open>str\<close>, which the spec leaves open (a nested object becomes a Python dict repr).

  \<^bold>\<open>Bounds and termination.\<close> Every loop of the program runs over a finite list (pages,
  directory entries), so every function is total: \<open>fun\<close> by structural recursion,
  and \<open>py_format\<close> by \<open>function\<close> with the measure \<open>length\<close> of the template, each
  recursive call being on a strictly shorter rest. No fuel is needed. The loop over the listing is reasoned
  about with the induction rule \<open>process_entries_induct\<close>, which names the text and the
  worlds of one file, and the case rule \<open>process_entry_outcomes\<close> (skipped, aborted,
  saved). Python integers do not occur in arithmetic; HTTP status codes are \<open>int\<close>.

  \<^bold>\<open>Not modelled.\<close> The OCR engine, the rasteriser, PIL, the HTTP transport and the JSON
  parser themselves (library code, parameters here); the message text of library and CPython
  exceptions (a parameter of \<open>print_line\<close>); file encodings (the model's strings
  are Latin-1 code points); \<^verbatim>\<open>str.format\<close> fields beyond plain keyword names (the model
  returns \<open>None\<close> for them; the program has none); failures to open or write the CSV
  file and an \<^verbatim>\<open>os.path.isfile\<close> answer that changes during the run; timing and the
  absence of a request timeout. The Python runtime is modelled only as far as the program
  uses it (hence its status \<open>partly\<close>): strings are lists of 8-bit characters, so
  \<^verbatim>\<open>str.lower\<close>, \<^verbatim>\<open>str.isspace\<close> and \<^verbatim>\<open>repr\<close> follow CPython on code points 0-255
  only; a JSON float is carried by its \<^verbatim>\<open>repr\<close> text, not as a binary double. The source
  lines no definition maps are imports, blank lines and comments.
\<close>

section \<open>Scenarios of the specification\<close>

text \<open>
  Concrete libraries for the scenarios of the spec (section 8). The OCR reads
  \<^verbatim>\<open>receipt1.jpg\<close> as \<^verbatim>\<open>Total: $12.50 Date: 2024-01-05\<close>, finds only whitespace in
  \<^verbatim>\<open>blank.png\<close>, reads each page of any PDF, and fails on page 3 of one that has a
  third page. The remote model answers every request with status 200 and a body whose
  \<^verbatim>\<open>choices[0].message.content\<close> is the JSON text \<open>c\<close>, which the parser reads as \<open>v\<close>.
\<close>

definition RECEIPT1_CONTENT :: string where
  \<open>RECEIPT1_CONTENT = ''{"Date":"2024-01-05","Total Amount":"12.50","Tax Amount":"0.00","Payment Method":"Cash","Vendor Name":"Cafe X","Receipt Number":""}''\<close>

definition receipt1_fields :: pyval where
  "receipt1_fields =
     PDict [(''Date'', PStr ''2024-01-05''), (''Total Amount'', PStr ''12.50''),
            (''Tax Amount'', PStr ''0.00''), (''Payment Method'', PStr ''Cash''),
            (''Vendor Name'', PStr ''Cafe X''), (''Receipt Number'', PStr [])]"

definition completion_body :: "string \<Rightarrow> string" where
  \<open>completion_body c =
     ''{"choices":[{"message":{"role":"assistant","content":"'' @
     concat (map (\<lambda>x. if x = DQ then [BSL, DQ] else [x]) c) @ ''"}}]}''\<close>

definition answering :: "string \<Rightarrow> pyval \<Rightarrow> client_lib" where
  "answering c v =
     \<lparr>http_post = (\<lambda>n req. Inr \<lparr>status_code = 200, resp_text = completion_body c\<rparr>),
      json_loads = (\<lambda>s. if s = completion_body c then
                          Inr (PDict [(''choices'', PList [PDict [(''message'',
                                PDict [(''role'', PStr ''assistant''), (''content'', PStr c)])]])])
                        else if s = c then Inr v
                        else Inl JSONDecodeError),
      api_key = ''sk-test''\<rparr>"

definition scenario_ocr :: "nat ocr_lib" where
  "scenario_ocr =
     \<lparr>convert_from_path = (\<lambda>p. if p = ''./assets/two.pdf'' then Inr [1, 2] else Inr [1, 2, 3]),
      image_open = (\<lambda>p. if p = ''./assets/receipt1.jpg'' then Inr 1
                       else if p = ''./assets/blank.png'' then Inr 0
                       else Inl (LibError ''cannot identify image file'')),
      image_to_string = (\<lambda>i. if i = 0 then Inr '' \<newline>''
                            else if i = 1 then Inr ''Total: $12.50 Date: 2024-01-05''
                            else if i = 2 then Inr ''page two''
                            else Inl (LibError ''tesseract failed''))\<rparr>"

definition scenario_libs :: "nat libs" where
  "scenario_libs = \<lparr>ocr = scenario_ocr, client = answering RECEIPT1_CONTENT receipt1_fields\<rparr>"

definition receipt1_entry :: dir_entry where
  "receipt1_entry = \<lparr>entry_name = ''receipt1.jpg'', entry_is_file = True\<rparr>"

definition blank_entry :: dir_entry where
  "blank_entry = \<lparr>entry_name = ''blank.png'', entry_is_file = True\<rparr>"

text \<open>A model that answers with a JSON list, a service that is unavailable, and a body without
  \<^verbatim>\<open>choices\<close>.\<close>

definition list_libs :: "nat libs" where
  \<open>list_libs = \<lparr>ocr = scenario_ocr, client = answering ''["n/a"]'' (PList [PStr ''n/a''])\<rparr>\<close>

definition unavailable_client :: client_lib where
  "unavailable_client =
     \<lparr>http_post = (\<lambda>n req. Inr \<lparr>status_code = 503, resp_text = ''Service Unavailable''\<rparr>),
      json_loads = (\<lambda>s. Inl JSONDecodeError), api_key = ''sk-test''\<rparr>"

definition no_choices_client :: client_lib where
  "no_choices_client =
     \<lparr>http_post = (\<lambda>n req. Inr \<lparr>status_code = 200, resp_text = ''{}''\<rparr>),
      json_loads = (\<lambda>s. if s = ''{}'' then Inr (PDict []) else Inl JSONDecodeError), api_key = ''sk-test''\<rparr>"

definition unavailable_libs :: "nat libs" where
  "unavailable_libs = \<lparr>ocr = scenario_ocr, client = unavailable_client\<rparr>"

abbreviation TOTAL_TEXT :: string where "TOTAL_TEXT \<equiv> ''Total: $12.50 Date: 2024-01-05''"

subsection \<open>Evaluating the scenario libraries\<close>

lemma scenario_paths:
  "os_path_join FOLDER_PATH ''receipt1.jpg'' = ''./assets/receipt1.jpg''"
  "os_path_join FOLDER_PATH ''blank.png'' = ''./assets/blank.png''"
  "file_ext ''./assets/receipt1.jpg'' = ''jpg''"
  "file_ext ''./assets/blank.png'' = ''png''"
  "file_ext ''./assets/scan.pdf'' = ''pdf''"
  "file_ext ''./assets/two.pdf'' = ''pdf''"
  "file_ext ''./assets/notes.txt'' = ''txt''"
  by (simp_all add: os_path_join_def FOLDER_PATH_def) code_simp+

lemma scenario_extract:
  "extract_text_from_file scenario_ocr ''./assets/receipt1.jpg'' w = (''Total: $12.50 Date: 2024-01-05'', w)"
  "extract_text_from_file scenario_ocr ''./assets/blank.png'' w = ([], w)"
  by (simp_all add: extract_text_from_file_def extract_try_def scenario_paths scenario_ocr_def
      py_strip_def py_isspace_def)

lemma answering_ask:
  "completion_body c \<noteq> c \<Longrightarrow>
   ask_openrouter (answering c v) p w = (v, post (openrouter_request ''sk-test'' p) w)"
  by (simp add: ask_openrouter_def answering_def response_content_def py_json_loads_def py_index_def Let_def)

lemma scenario_bodies:
  "completion_body RECEIPT1_CONTENT \<noteq> RECEIPT1_CONTENT"
  \<open>completion_body ''["n/a"]'' \<noteq> ''["n/a"]''\<close>
  by (simp_all add: completion_body_def RECEIPT1_CONTENT_def)

lemma scenario_runs:
  "\<exists>w'. run scenario_libs (start_world (Dir [blank_entry, receipt1_entry])) = Inr w'"
  by (simp add: run_def os_makedirs_def os_listdir_def start_world_def receipt1_entry_def blank_entry_def
      Let_def scenario_libs_def scenario_paths scenario_extract answering_ask scenario_bodies receipt1_fields_def)

lemma scenario_has_text:
  "ocr L = scenario_ocr \<Longrightarrow> filter (has_text L) [blank_entry, receipt1_entry] = [receipt1_entry]"
  "ocr L = scenario_ocr \<Longrightarrow>
     filter (\<lambda>e. entry_is_file e \<and> \<not> has_text L e) [blank_entry, receipt1_entry] = [blank_entry]"
  by (simp_all add: has_text_def entry_text_def blank_entry_def receipt1_entry_def scenario_paths scenario_extract)

lemma listing_start: "listing (start_world (Dir es)) = es"
  by (simp add: listing_def start_world_def)

lemma list_run_aborts:
  "\<exists>w'. run list_libs (start_world (Dir [receipt1_entry, blank_entry])) = Inl (TypeError, w')"
  by (simp add: run_def os_makedirs_def os_listdir_def start_world_def receipt1_entry_def blank_entry_def
      Let_def list_libs_def scenario_paths scenario_extract answering_ask scenario_bodies)

lemma scenario_start_table: "csv_read (file_content (start_world f) CSV_OUTPUT) = Some []"
  by (simp add: start_world_def file_content_def csv_read_def)

section \<open>Witnesses\<close>

theorem run_csv_rows_witness:
  "\<exists>w'. run scenario_libs (start_world (Dir [blank_entry, receipt1_entry])) = Inr w' \<and>
     (\<exists>recs. csv_read (file_content w' CSV_OUTPUT) = Some (with_header [] recs) \<and>
        map hd recs = map entry_name (filter (has_text scenario_libs)
                                        (listing (start_world (Dir [blank_entry, receipt1_entry])))) \<and>
        (\<forall>r \<in> set recs. length r = 7))"
proof -
  obtain w' where run: "run scenario_libs (start_world (Dir [blank_entry, receipt1_entry])) = Inr w'"
    using scenario_runs by blast
  from run_csv_rows [OF run scenario_start_table] run show ?thesis by blast
qed

theorem run_requests_witness:
  "\<exists>w'. run scenario_libs (start_world (Dir [blank_entry, receipt1_entry])) = Inr w' \<and>
     sent w' = map (\<lambda>e. openrouter_request (api_key (client scenario_libs)) (build_prompt (entry_text scenario_libs e)))
                 (filter (has_text scenario_libs) (listing (start_world (Dir [blank_entry, receipt1_entry]))))"
proof -
  obtain w' where run: "run scenario_libs (start_world (Dir [blank_entry, receipt1_entry])) = Inr w'"
    using scenario_runs by blast
  from run_requests [OF run] run show ?thesis by (auto simp: start_world_def)
qed

theorem process_entries_non_dict_witness:
  "fst (ask_openrouter (client list_libs) (build_prompt TOTAL_TEXT)
          (emit (Processing ''receipt1.jpg'') (start_world (Dir [receipt1_entry, blank_entry])))) =
     PList [PStr ''n/a''] \<and>
   process_entries list_libs [receipt1_entry, blank_entry] (start_world (Dir [receipt1_entry, blank_entry])) =
     Inl (TypeError, snd (ask_openrouter (client list_libs) (build_prompt TOTAL_TEXT)
                            (emit (Processing ''receipt1.jpg'') (start_world (Dir [receipt1_entry, blank_entry])))))"
proof -
  let ?w0 = "start_world (Dir [receipt1_entry, blank_entry])"
  let ?w1 = "emit (Processing ''receipt1.jpg'') ?w0"
  have ex: "extract_text_from_file (ocr list_libs) (os_path_join FOLDER_PATH (entry_name receipt1_entry))
      (emit (Processing (entry_name receipt1_entry)) ?w0) = (TOTAL_TEXT, ?w1)"
    by (simp add: list_libs_def receipt1_entry_def scenario_paths scenario_extract)
  have ask: "ask_openrouter (client list_libs) (build_prompt TOTAL_TEXT) ?w1 =
      (PList [PStr ''n/a''], snd (ask_openrouter (client list_libs) (build_prompt TOTAL_TEXT) ?w1))"
    by (simp add: list_libs_def answering_ask scenario_bodies)
  have "process_entries list_libs (receipt1_entry # [blank_entry]) ?w0 =
      Inl (TypeError, snd (ask_openrouter (client list_libs) (build_prompt TOTAL_TEXT) ?w1))"
    by (rule process_entries_non_dict [OF _ ex _ ask]) (simp_all add: receipt1_entry_def)
  with ask show ?thesis by (metis fst_conv)
qed

theorem extract_pdf_pages_witness:
  "extract_text_from_file scenario_ocr ''./assets/two.pdf'' (start_world Missing) =
     (TOTAL_TEXT @ ''\<newline>page two'', start_world Missing)"
proof -
  have pages: "list_all2 (\<lambda>img t. image_to_string scenario_ocr img = Inr t) [1, 2] [TOTAL_TEXT, ''page two'']"
    by (simp add: scenario_ocr_def)
  have "extract_text_from_file scenario_ocr ''./assets/two.pdf'' (start_world Missing) =
      (py_strip (py_join [LF] [TOTAL_TEXT, ''page two'']), start_world Missing)"
    by (rule extract_pdf_pages [OF _ _ pages]) (simp_all add: scenario_paths scenario_ocr_def)
  then show ?thesis by (simp add: py_strip_def py_isspace_def)
qed

theorem extract_pdf_partial_witness:
  "extract_text_from_file scenario_ocr ''./assets/scan.pdf'' (start_world Missing) =
     (TOTAL_TEXT @ ''\<newline>page two'',
      emit (OcrError ''./assets/scan.pdf'' (LibError ''tesseract failed'')) (start_world Missing))"
proof -
  have pages: "list_all2 (\<lambda>img t. image_to_string scenario_ocr img = Inr t) [1, 2] [TOTAL_TEXT, ''page two'']"
    by (simp add: scenario_ocr_def)
  have "extract_text_from_file scenario_ocr ''./assets/scan.pdf'' (start_world Missing) =
      (py_strip (py_join [LF] [TOTAL_TEXT, ''page two'']),
       emit (OcrError ''./assets/scan.pdf'' (LibError ''tesseract failed'')) (start_world Missing))"
    by (rule extract_pdf_partial [OF _ _ pages, where rest = "[]" and bad = 3])
      (simp_all add: scenario_paths scenario_ocr_def)
  then show ?thesis by (simp add: py_strip_def py_isspace_def)
qed

theorem extract_image_witness:
  "extract_text_from_file scenario_ocr ''./assets/receipt1.jpg'' (start_world Missing) =
     (TOTAL_TEXT, start_world Missing)"
proof -
  have "extract_text_from_file scenario_ocr ''./assets/receipt1.jpg'' (start_world Missing) =
      (py_strip TOTAL_TEXT, start_world Missing)"
    by (rule extract_image [where img = "1::nat"]) (simp_all add: scenario_paths scenario_ocr_def)
  then show ?thesis by (simp add: py_strip_def py_isspace_def)
qed

theorem extract_image_error_witness:
  "extract_text_from_file scenario_ocr ''./assets/notes.txt'' (start_world Missing) =
     ([], emit (OcrError ''./assets/notes.txt'' (LibError ''cannot identify image file'')) (start_world Missing))"
  by (rule extract_image_error) (simp_all add: scenario_paths scenario_ocr_def)

theorem extract_text_shape_witness:
  "py_strip TOTAL_TEXT = TOTAL_TEXT \<and>
   (start_world Missing = start_world Missing \<or>
    (\<exists>e. start_world Missing = emit (OcrError ''./assets/receipt1.jpg'' e) (start_world Missing)))"
  by (rule extract_text_shape [where lib = scenario_ocr]) (simp add: scenario_extract)

theorem ask_status_error_witness:
  "ask_openrouter unavailable_client ''prompt'' (start_world Missing) =
     (PDict [], emit (ApiStatusError 503 ''Service Unavailable'') (sent_one unavailable_client ''prompt'' (start_world Missing)))"
proof -
  have "ask_openrouter unavailable_client ''prompt'' (start_world Missing) =
      (PDict [], emit (ApiStatusError (status_code \<lparr>status_code = 503, resp_text = ''Service Unavailable''\<rparr>)
                                       (resp_text \<lparr>status_code = 503, resp_text = ''Service Unavailable''\<rparr>))
                  (sent_one unavailable_client ''prompt'' (start_world Missing)))"
    by (rule ask_status_error) (simp_all add: unavailable_client_def)
  then show ?thesis by simp
qed

theorem ask_success_witness:
  "ask_openrouter (answering RECEIPT1_CONTENT receipt1_fields) ''prompt'' (start_world Missing) =
     (receipt1_fields, sent_one (answering RECEIPT1_CONTENT receipt1_fields) ''prompt'' (start_world Missing))"
  by (rule ask_success [where content = RECEIPT1_CONTENT
        and resp = "\<lparr>status_code = 200, resp_text = completion_body RECEIPT1_CONTENT\<rparr>"
        and result = "PDict [(''choices'', PList [PDict [(''message'',
          PDict [(''role'', PStr ''assistant''), (''content'', PStr RECEIPT1_CONTENT)])]])]"])
    (simp_all add: answering_def response_content_def py_index_def scenario_bodies scenario_bodies [THEN not_sym])

theorem ask_malformed_witness:
  "ask_openrouter no_choices_client ''prompt'' (start_world Missing) =
     (PDict [], emit (ApiError (KeyError (PStr ''choices''))) (sent_one no_choices_client ''prompt'' (start_world Missing)))"
  by (rule ask_malformed [where resp = "\<lparr>status_code = 200, resp_text = ''{}''\<rparr>"])
    (simp_all add: no_choices_client_def response_content_def)

theorem run_completes_witness:
  "(\<forall>s. isl (json_loads (client scenario_libs) s) \<or>
        (\<exists>ps. json_loads (client scenario_libs) s = Inr (PDict ps))) \<and>
   folder (start_world (Dir [receipt1_entry])) \<noteq> NotADir \<and>
   (\<exists>w'. run scenario_libs (start_world (Dir [receipt1_entry])) = Inr w')"
proof -
  have h: "\<forall>s v. json_loads (client scenario_libs) s = Inr v \<longrightarrow> (\<exists>ps. v = PDict ps)"
    by (auto simp: scenario_libs_def answering_def receipt1_fields_def)
  have h': "\<forall>s. isl (json_loads (client scenario_libs) s) \<or>
        (\<exists>ps. json_loads (client scenario_libs) s = Inr (PDict ps))"
    by (auto simp: scenario_libs_def answering_def receipt1_fields_def)
  have f: "folder (start_world (Dir [receipt1_entry])) \<noteq> NotADir" by (simp add: start_world_def)
  from h' f run_completes [OF h f] show ?thesis by blast
qed

theorem reach_output_table_witness:
  "reach scenario_libs (res_world (run scenario_libs (start_world (Dir [blank_entry, receipt1_entry])))) \<and>
   (\<exists>rows. csv_read (file_content (res_world (run scenario_libs (start_world (Dir [blank_entry, receipt1_entry]))))
              CSV_OUTPUT) = Some rows \<and> (rows = [] \<or> hd rows = CSV_HEADER) \<and> (\<forall>r \<in> set rows. length r = 7))"
proof -
  have r: "reach scenario_libs (res_world (run scenario_libs (start_world (Dir [blank_entry, receipt1_entry]))))"
    using reach.invoke [OF reach.fresh refl, of scenario_libs "Dir [blank_entry, receipt1_entry]"] by simp
  from r reach_output_table [OF r] show ?thesis by blast
qed

theorem rerun_duplicates_witness:
  "\<exists>w1 w2. folder (start_world (Dir [receipt1_entry])) = Dir [receipt1_entry] \<and>
     file_content (start_world (Dir [receipt1_entry])) CSV_OUTPUT = [] \<and>
     run scenario_libs (start_world (Dir [receipt1_entry])) = Inr w1 \<and> run scenario_libs w1 = Inr w2 \<and>
     (\<exists>recs1 recs2. csv_read (file_content w2 CSV_OUTPUT) = Some (with_header [] (recs1 @ recs2)) \<and>
        map hd recs1 = map entry_name (filter (has_text scenario_libs) [receipt1_entry]) \<and>
        map hd recs2 = map entry_name (filter (has_text scenario_libs) [receipt1_entry]))"
proof -
  let ?w = "start_world (Dir [receipt1_entry])"
  have h: "\<forall>s v. json_loads (client scenario_libs) s = Inr v \<longrightarrow> (\<exists>ps. v = PDict ps)"
    by (auto simp: scenario_libs_def answering_def receipt1_fields_def)
  have f: "folder ?w = Dir [receipt1_entry]" and c: "file_content ?w CSV_OUTPUT = []"
    by (simp_all add: start_world_def file_content_def)
  obtain w1 where r1: "process_entries scenario_libs [receipt1_entry] ?w = Inr w1"
    using process_entries_completes [OF h] by blast
  have "folder w1 = Dir [receipt1_entry]"
    using process_entries_folder [of scenario_libs "[receipt1_entry]" ?w] r1 f by simp
  moreover obtain w2 where r2: "process_entries scenario_libs [receipt1_entry] w1 = Inr w2"
    using process_entries_completes [OF h] by blast
  ultimately have runs: "run scenario_libs ?w = Inr w1" "run scenario_libs w1 = Inr w2"
    using r1 f by (simp_all add: run_Dir)
  show ?thesis using rerun_duplicates [OF f c runs] f c runs by blast
qed

theorem run_reports_files_witness:
  "\<exists>w'. run scenario_libs (start_world (Dir [blank_entry, receipt1_entry])) = Inr w' \<and>
     processed (console w') = processed (console (start_world (Dir [blank_entry, receipt1_entry]))) @
       map entry_name (filter entry_is_file (listing (start_world (Dir [blank_entry, receipt1_entry]))))"
proof -
  obtain w' where run: "run scenario_libs (start_world (Dir [blank_entry, receipt1_entry])) = Inr w'"
    using scenario_runs by blast
  from run_reports_files [OF run] run show ?thesis by blast
qed

theorem run_trace_segments_witness:
  "\<exists>w'. run scenario_libs (start_world (Dir [blank_entry, receipt1_entry])) = Inr w' \<and>
     (\<exists>segs. io w' = io (start_world (Dir [blank_entry, receipt1_entry])) @ concat segs \<and>
        list_all2 (entry_segment scenario_libs)
          (filter entry_is_file (listing (start_world (Dir [blank_entry, receipt1_entry])))) segs)"
proof -
  obtain w' where run: "run scenario_libs (start_world (Dir [blank_entry, receipt1_entry])) = Inr w'"
    using scenario_runs by blast
  from run_trace_segments [OF run] run show ?thesis by blast
qed

theorem extract_pdf_convert_error_witness:
  "file_ext ''./assets/scan.pdf'' = ''pdf'' \<and>
   convert_from_path (scenario_ocr\<lparr>convert_from_path := (\<lambda>p. Inl (LibError ''Unable to get page count''))\<rparr>)
     ''./assets/scan.pdf'' = Inl (LibError ''Unable to get page count'') \<and>
   extract_text_from_file (scenario_ocr\<lparr>convert_from_path := (\<lambda>p. Inl (LibError ''Unable to get page count''))\<rparr>)
     ''./assets/scan.pdf'' (start_world Missing) =
     ([], emit (OcrError ''./assets/scan.pdf'' (LibError ''Unable to get page count'')) (start_world Missing))"
  using extract_pdf_convert_error [of "''./assets/scan.pdf''"
      "scenario_ocr\<lparr>convert_from_path := (\<lambda>p. Inl (LibError ''Unable to get page count''))\<rparr>"
      "LibError ''Unable to get page count''" "start_world Missing"]
  by (simp add: scenario_paths)

theorem run_abort_trace_witness:
  "\<exists>w'. folder (start_world (Dir [receipt1_entry, blank_entry])) = Dir [receipt1_entry, blank_entry] \<and>
     run list_libs (start_world (Dir [receipt1_entry, blank_entry])) = Inl (TypeError, w') \<and>
     (\<exists>pre e post segs seg. filter entry_is_file [receipt1_entry, blank_entry] = pre @ e # post \<and>
        io w' = io (start_world (Dir [receipt1_entry, blank_entry])) @ concat segs @ seg \<and>
        list_all2 (entry_segment list_libs) pre segs \<and> failed_segment list_libs e seg)"
proof -
  obtain w' where run: "run list_libs (start_world (Dir [receipt1_entry, blank_entry])) = Inl (TypeError, w')"
    using list_run_aborts by blast
  have f: "folder (start_world (Dir [receipt1_entry, blank_entry])) = Dir [receipt1_entry, blank_entry]"
    by (simp add: start_world_def)
  from f run run_abort_trace [OF f run] show ?thesis by blast
qed

theorem run_exceptions_witness:
  "\<exists>w'. run list_libs (start_world (Dir [receipt1_entry, blank_entry])) = Inl (TypeError, w') \<and>
     ((folder (start_world (Dir [receipt1_entry, blank_entry])) = NotADir \<and>
         TypeError = FileExistsError FOLDER_PATH \<and> w' = start_world (Dir [receipt1_entry, blank_entry])) \<or>
      (TypeError = TypeError \<and> (\<exists>es. folder (start_world (Dir [receipt1_entry, blank_entry])) = Dir es)))"
proof -
  obtain w' where run: "run list_libs (start_world (Dir [receipt1_entry, blank_entry])) = Inl (TypeError, w')"
    using list_run_aborts by blast
  from run run_exceptions [OF run] show ?thesis by blast
qed

theorem run_service_down_rows_witness:
  "\<exists>w'. run unavailable_libs (start_world (Dir [blank_entry, receipt1_entry])) = Inr w' \<and>
     csv_read (file_content w' CSV_OUTPUT) = Some [CSV_HEADER, [''receipt1.jpg'', [], [], [], [], [], []]]"
proof -
  have down: "\<forall>n r resp. http_post (client unavailable_libs) n r = Inr resp \<longrightarrow> status_code resp \<noteq> 200"
    by (auto simp: unavailable_libs_def unavailable_client_def)
  have dir: "folder (start_world (Dir [blank_entry, receipt1_entry])) \<noteq> NotADir"
    by (simp add: start_world_def)
  have ht: "filter (has_text unavailable_libs) [blank_entry, receipt1_entry] = [receipt1_entry]"
    using scenario_has_text(1) [of unavailable_libs] by (simp add: unavailable_libs_def)
  have "entry_name receipt1_entry = ''receipt1.jpg''" by (simp add: receipt1_entry_def)
  with run_service_down_rows [where L=unavailable_libs, OF down dir scenario_start_table] show ?thesis
    unfolding listing_start ht by (simp add: with_header_def numeral_eq_Suc)
qed

theorem run_reports_skips_witness:
  "\<exists>w'. run scenario_libs (start_world (Dir [blank_entry, receipt1_entry])) = Inr w' \<and>
     skipped (console w') = [''blank.png'']"
proof -
  obtain w' where run: "run scenario_libs (start_world (Dir [blank_entry, receipt1_entry])) = Inr w'"
    using scenario_runs by blast
  have ht: "filter (\<lambda>e. entry_is_file e \<and> \<not> has_text scenario_libs e) [blank_entry, receipt1_entry] = [blank_entry]"
    using scenario_has_text(2) [of scenario_libs] by (simp add: scenario_libs_def)
  have "entry_name blank_entry = ''blank.png''" by (simp add: blank_entry_def)
  with run_reports_skips [OF run] run show ?thesis
    unfolding listing_start ht by (simp add: start_world_def)
qed

end
